theory Spec2Isabelle
  imports Main "HOL-Library.Word"
begin

section \<open>The class and booking service of main.go\<close>

text \<open>
  The service keeps two slices and two counters in package-level variables, guards them
  with one mutex, and mirrors each slice into a JSON file after every append. The two
  handlers are embedded as functions from the request and the system state to the reply
  and the new state. The mutex makes the guarded part of each handler atomic, and the
  part before the lock reads the request only, so a run of the service is a sequence of
  handler calls.
\<close>

subsection \<open>Data\<close>

text \<open>
  Go's \<open>int\<close> on a 64-bit platform: arithmetic wraps, comparisons are signed
  (\<open>\<le>s\<close>, \<open><s\<close>, read through \<open>sint\<close>).
\<close>

type_synonym goint = "64 word"

text \<open>
  The struct \<open>Class\<close>. The struct \<open>Booking\<close> has fields \<open>ID\<close> and \<open>ClassName\<close>
  too; they carry the prefix \<open>B_\<close> here, since record fields share one name space.
\<close>

record Class =
  ID :: goint
  ClassName :: string
  StartDate :: string
  EndDate :: string
  Capacity :: goint

record Booking =
  B_ID :: goint
  MemberName :: string
  Date :: string
  B_ClassName :: string

text \<open>
  The package-level variables \<open>classes\<close>, \<open>bookings\<close>, \<open>classId\<close>, \<open>bookingId\<close>,
  and the decoded contents of the files \<open>classes.json\<close> and \<open>bookings.json\<close>.
\<close>

record System =
  classes :: "Class list"
  bookings :: "Booking list"
  classId :: goint
  bookingId :: goint
  classes_json :: "Class list"
  bookings_json :: "Booking list"

text \<open>
  The replies. Each error stands for one call of \<open>errorResponse\<close>:
  \<^item> \<open>MethodNotAllowed\<close>: 405, "Invalid request method";
  \<^item> \<open>InvalidBody\<close>: 400, "Invalid request body";
  \<^item> \<open>InvalidFields\<close>: 400, "Invalid data format" (classes), "Invalid field format" (bookings);
  \<^item> \<open>InvalidDateFormat f\<close>: 400, "Invalid startDate format, use DD-MM-YYYY", and the
    same for endDate and date;
  \<^item> \<open>InvalidRange\<close>: 400, "endDate must be after startDate";
  \<^item> \<open>ClassUnavailable\<close>: 400, "Class is not available on the specified date";
  \<^item> \<open>CapacityExceeded\<close>: 400, "No available slots for the selected class on this date";
  \<^item> \<open>PersistenceFailure\<close>: 500, "Failed to save class data" or "Failed to save booking data".
  The successes are the two calls of \<open>successResponse\<close> with status 201.
\<close>

datatype date_field = StartDateField | EndDateField | DateField

datatype error =
    MethodNotAllowed
  | InvalidBody
  | InvalidFields
  | InvalidDateFormat date_field
  | InvalidRange
  | ClassUnavailable
  | CapacityExceeded
  | PersistenceFailure

datatype success =
    ClassCreated Class
  | BookingSuccessful Booking goint

type_synonym response = "error + success"

subsection \<open>Dates\<close>

text \<open>
  The handlers read dates with \<open>time.Parse("02-01-2006", s)\<close> of Go's standard library
  and compare them with \<open>Before\<close> and \<open>After\<close>. A parsed value is midnight UTC of a
  calendar day, so a \<open>Time\<close> is a year, a month and a day here, and the comparison of
  instants is the lexicographic one.
\<close>

datatype Time = YMD nat nat nat

fun Before :: "Time \<Rightarrow> Time \<Rightarrow> bool" where
  "Before (YMD y1 m1 d1) (YMD y2 m2 d2) =
     (y1 < y2 \<or> (y1 = y2 \<and> (m1 < m2 \<or> (m1 = m2 \<and> d1 < d2))))"

definition After :: "Time \<Rightarrow> Time \<Rightarrow> bool" where
  "After t u = Before u t"

text \<open>The zero \<open>Time\<close>, which \<open>time.Parse\<close> returns beside an error: 1 January of year 1.\<close>

definition zeroTime :: Time where
  "zeroTime = YMD 1 1 1"

definition isDigit :: "char \<Rightarrow> bool" where
  "isDigit c = (48 \<le> (of_char c :: nat) \<and> (of_char c :: nat) \<le> 57)"

definition digit :: "char \<Rightarrow> nat" where
  "digit c = of_char c - 48"

definition isLeap :: "nat \<Rightarrow> bool" where
  "isLeap year = (year mod 4 = 0 \<and> (year mod 100 \<noteq> 0 \<or> year mod 400 = 0))"

definition daysIn :: "nat \<Rightarrow> nat \<Rightarrow> nat" where
  "daysIn m year =
     (if m = 2 then (if isLeap year then 29 else 28)
      else if m = 4 \<or> m = 6 \<or> m = 9 \<or> m = 11 then 30 else 31)"

text \<open>
  \<open>time.Parse\<close> at the layout \<open>02-01-2006\<close>: two digits of day, a hyphen, two digits of
  month, a hyphen, four digits of year and nothing after them; then the month must be
  1 to 12 and the day 1 to the length of that month. Every failure is the one \<open>err\<close>
  the handlers test, here \<open>None\<close>.
\<close>

fun parseDate :: "string \<Rightarrow> Time option" where
  "parseDate [d1, d2, s1, m1, m2, s2, y1, y2, y3, y4] =
     (if isDigit d1 \<and> isDigit d2 \<and> s1 = CHR ''-'' \<and> isDigit m1 \<and> isDigit m2 \<and> s2 = CHR ''-''
         \<and> isDigit y1 \<and> isDigit y2 \<and> isDigit y3 \<and> isDigit y4
      then
        (let day = digit d1 * 10 + digit d2;
             month = digit m1 * 10 + digit m2;
             year = digit y1 * 1000 + digit y2 * 100 + digit y3 * 10 + digit y4
         in if month < 1 \<or> 12 < month then None
            else if day < 1 \<or> daysIn month year < day then None
            else Some (YMD year month day))
      else None)"
| "parseDate _ = None"

text \<open>\<open>t, _ := time.Parse(...)\<close>: the error is dropped and the zero \<open>Time\<close> is used.\<close>

definition parseIgnoringError :: "string \<Rightarrow> Time" where
  "parseIgnoringError s = (case parseDate s of None \<Rightarrow> zeroTime | Some t \<Rightarrow> t)"

subsection \<open>The two loops of bookingHandler\<close>

text \<open>
  The first loop: the first class, in slice order, with the requested name whose range
  holds the booking date; \<open>None\<close> is \<open>classFound == nil\<close>.
\<close>

fun classFound :: "Class list \<Rightarrow> string \<Rightarrow> Time \<Rightarrow> Class option" where
  "classFound [] name bookingDate = None"
| "classFound (class # rest) name bookingDate =
     (if ClassName class = name then
        (let startDate = parseIgnoringError (StartDate class);
             endDate = parseIgnoringError (EndDate class)
         in if \<not> Before bookingDate startDate \<and> \<not> After bookingDate endDate
            then Some class
            else classFound rest name bookingDate)
      else classFound rest name bookingDate)"

text \<open>The second loop, with its counter as the accumulator.\<close>

fun countLoop :: "Booking list \<Rightarrow> string \<Rightarrow> string \<Rightarrow> goint \<Rightarrow> goint" where
  "countLoop [] name date n = n"
| "countLoop (booking # rest) name date n =
     (if B_ClassName booking = name \<and> Date booking = date
      then countLoop rest name date (n + 1)
      else countLoop rest name date n)"

definition currentBookings :: "Booking list \<Rightarrow> string \<Rightarrow> string \<Rightarrow> goint" where
  "currentBookings bs name date = countLoop bs name date 0"

subsection \<open>The handlers\<close>

text \<open>
  What \<open>writeDataToJsonFile\<close> does to its file. \<open>os.WriteFile\<close> opens the file with
  truncation and then writes: when it returns an error the file may be as it was (it
  could not be opened), empty, or cut short. \<open>WriteFailed left\<close> is a write that failed
  and left a file that loads as \<open>left\<close>, whatever that is: the old content, or nothing
  when the file is empty or no longer decodes.
\<close>

datatype 'a write_result = Written | WriteFailed "'a list"

text \<open>
  A handler takes the request's method, the decoded body (\<open>None\<close> when the decoder
  fails), and the outcome of its call of \<open>writeDataToJsonFile\<close>. The line appended to the
  log file is left out: nothing reads it.
\<close>

definition classHandler ::
  "string \<Rightarrow> Class option \<Rightarrow> Class write_result \<Rightarrow> System \<Rightarrow> response \<times> System" where
  "classHandler meth reqBody writeOk sys =
     (if meth \<noteq> ''POST'' then (Inl MethodNotAllowed, sys)
      else case reqBody of
        None \<Rightarrow> (Inl InvalidBody, sys)
      | Some newClass \<Rightarrow>
          if ClassName newClass = [] \<or> StartDate newClass = [] \<or> EndDate newClass = []
             \<or> Capacity newClass \<le>s 0
          then (Inl InvalidFields, sys)
          else case parseDate (StartDate newClass) of
            None \<Rightarrow> (Inl (InvalidDateFormat StartDateField), sys)
          | Some startDate \<Rightarrow>
              (case parseDate (EndDate newClass) of
                None \<Rightarrow> (Inl (InvalidDateFormat EndDateField), sys)
              | Some endDate \<Rightarrow>
                  if Before endDate startDate then (Inl InvalidRange, sys)
                  else
                    (let newClass' = newClass\<lparr>ID := classId sys\<rparr>;
                         sys1 = sys\<lparr>classId := classId sys + 1,
                                classes := classes sys @ [newClass']\<rparr>
                     in case writeOk of
                          WriteFailed left \<Rightarrow>
                            (Inl PersistenceFailure, sys1\<lparr>classes_json := left\<rparr>)
                        | Written \<Rightarrow>
                            (Inr (ClassCreated newClass'),
                             sys1\<lparr>classes_json := classes sys1\<rparr>))))"

definition bookingHandler ::
  "string \<Rightarrow> Booking option \<Rightarrow> Booking write_result \<Rightarrow> System \<Rightarrow> response \<times> System" where
  "bookingHandler meth reqBody writeOk sys =
     (if meth \<noteq> ''POST'' then (Inl MethodNotAllowed, sys)
      else case reqBody of
        None \<Rightarrow> (Inl InvalidBody, sys)
      | Some newBooking \<Rightarrow>
          if MemberName newBooking = [] \<or> Date newBooking = [] \<or> B_ClassName newBooking = []
          then (Inl InvalidFields, sys)
          else case parseDate (Date newBooking) of
            None \<Rightarrow> (Inl (InvalidDateFormat DateField), sys)
          | Some bookingDate \<Rightarrow>
              (case classFound (classes sys) (B_ClassName newBooking) bookingDate of
                None \<Rightarrow> (Inl ClassUnavailable, sys)
              | Some class \<Rightarrow>
                  (let availableSlots =
                         Capacity class
                         - currentBookings (bookings sys) (B_ClassName newBooking) (Date newBooking)
                   in if availableSlots \<le>s 0 then (Inl CapacityExceeded, sys)
                      else
                        (let newBooking' = newBooking\<lparr>B_ID := bookingId sys\<rparr>;
                             sys1 = sys\<lparr>bookingId := bookingId sys + 1,
                                    bookings := bookings sys @ [newBooking']\<rparr>
                         in case writeOk of
                              WriteFailed left \<Rightarrow>
                                (Inl PersistenceFailure, sys1\<lparr>bookings_json := left\<rparr>)
                            | Written \<Rightarrow>
                                (Inr (BookingSuccessful newBooking' (availableSlots - 1)),
                                 sys1\<lparr>bookings_json := bookings sys1\<rparr>)))))"

text \<open>
  \<open>main\<close> at the start of a process: the counters have their initial value 1, and the
  slices are what the two files hold.
\<close>

definition main :: "System \<Rightarrow> System" where
  "main sys = sys\<lparr>classes := classes_json sys, bookings := bookings_json sys,
                  classId := 1, bookingId := 1\<rparr>"

text \<open>The first start, with both files empty.\<close>

definition fresh :: System where
  "fresh = \<lparr>classes = [], bookings = [], classId = 1, bookingId = 1,
            classes_json = [], bookings_json = []\<rparr>"

subsection \<open>Runs\<close>

text \<open>
  A run of one process is a sequence of requests to the two routes, each with its
  method, its decoded body and the outcome of its file write.
\<close>

datatype call =
    RegisterClass string "Class option" "Class write_result"
  | CreateBooking string "Booking option" "Booking write_result"

fun step :: "call \<Rightarrow> System \<Rightarrow> System" where
  "step (RegisterClass meth reqBody writeOk) sys = snd (classHandler meth reqBody writeOk sys)"
| "step (CreateBooking meth reqBody writeOk) sys = snd (bookingHandler meth reqBody writeOk sys)"

definition run :: "call list \<Rightarrow> System \<Rightarrow> System" where
  "run calls sys = fold step calls sys"

subsection \<open>The operations as the specification words them\<close>

text \<open>
  The specification's \<open>FindActiveOn\<close>: the first definition, in insertion order, whose
  name matches exactly and whose range from start to end contains the date, both ends
  included. It is compared with the loop \<open>classFound\<close> below.
\<close>

definition containsDate :: "Class \<Rightarrow> Time \<Rightarrow> bool" where
  "containsDate c date =
     (let startDate = parseIgnoringError (StartDate c);
          endDate = parseIgnoringError (EndDate c)
      in (startDate = date \<or> Before startDate date) \<and> (date = endDate \<or> Before date endDate))"

definition FindActiveOn :: "Class list \<Rightarrow> string \<Rightarrow> Time \<Rightarrow> Class option" where
  "FindActiveOn defs name date = List.find (\<lambda>c. ClassName c = name \<and> containsDate c date) defs"

text \<open>
  The specification's \<open>CountFor\<close>: the number of stored records whose class name and
  date text match exactly, as a natural number.
\<close>

definition countFor :: "Booking list \<Rightarrow> string \<Rightarrow> string \<Rightarrow> nat" where
  "countFor bs name date = length (filter (\<lambda>b. B_ClassName b = name \<and> Date b = date) bs)"

text \<open>
  The fixed layout of the specification: two digits, a hyphen, two digits, a hyphen, four
  digits. \<open>calendarDay\<close> says that a text of this shape names a day that exists.
\<close>

fun fixedLayout :: "string \<Rightarrow> bool" where
  "fixedLayout [d1, d2, s1, m1, m2, s2, y1, y2, y3, y4] =
     (isDigit d1 \<and> isDigit d2 \<and> s1 = CHR ''-'' \<and> isDigit m1 \<and> isDigit m2 \<and> s2 = CHR ''-''
      \<and> isDigit y1 \<and> isDigit y2 \<and> isDigit y3 \<and> isDigit y4)"
| "fixedLayout _ = False"

fun calendarDay :: "string \<Rightarrow> bool" where
  "calendarDay [d1, d2, s1, m1, m2, s2, y1, y2, y3, y4] =
     (let day = digit d1 * 10 + digit d2;
          month = digit m1 * 10 + digit m2;
          year = digit y1 * 1000 + digit y2 * 100 + digit y3 * 10 + digit y4
      in 1 \<le> month \<and> month \<le> 12 \<and> 1 \<le> day \<and> day \<le> daysIn month year)"
| "calendarDay _ = False"

subsection \<open>Invariants of a run\<close>

text \<open>
  Every stored booking names a class that is found on its date, and for every name and
  date the bookings do not outnumber the capacity of the class found for them.
\<close>

definition within_capacity :: "System \<Rightarrow> bool" where
  "within_capacity sys =
     ((\<forall>b\<in>set (bookings sys). \<exists>d. parseDate (Date b) = Some d
          \<and> classFound (classes sys) (B_ClassName b) d \<noteq> None)
      \<and> (\<forall>name date d c. parseDate date = Some d
            \<and> classFound (classes sys) name d = Some c
          \<longrightarrow> int (countFor (bookings sys) name date) \<le> sint (Capacity c)))"

text \<open>The stored IDs are 1, 2, 3, ... in slice order, and each counter is one ahead.\<close>

definition ids_consecutive :: "System \<Rightarrow> bool" where
  "ids_consecutive sys =
     (map ID (classes sys) = map of_nat [1..<Suc (length (classes sys))]
      \<and> classId sys = of_nat (Suc (length (classes sys)))
      \<and> map B_ID (bookings sys) = map of_nat [1..<Suc (length (bookings sys))]
      \<and> bookingId sys = of_nat (Suc (length (bookings sys))))"

subsection \<open>Requests and states of the worked scenarios\<close>

text \<open>
  The request bodies of the README and of the tests, and some more. A body that
  carries no \<open>id\<close> decodes with the zero value in that field.
\<close>

definition pilates :: Class where
  "pilates = \<lparr>ID = 0, ClassName = ''Pilates'', StartDate = ''01-12-2024'',
              EndDate = ''20-12-2024'', Capacity = 10\<rparr>"

definition backwards :: Class where
  "backwards = \<lparr>ID = 0, ClassName = ''Pilates'', StartDate = ''31-12-2024'',
                EndDate = ''01-12-2024'', Capacity = 10\<rparr>"

definition one_day :: Class where
  "one_day = \<lparr>ID = 0, ClassName = ''Workshop'', StartDate = ''16-12-2024'',
              EndDate = ''16-12-2024'', Capacity = 5\<rparr>"

definition iso_start :: Class where
  "iso_start = \<lparr>ID = 0, ClassName = ''Dance'', StartDate = ''2024-12-10'',
                EndDate = ''20-12-2024'', Capacity = 5\<rparr>"

definition short_end :: Class where
  "short_end = \<lparr>ID = 0, ClassName = ''Dance'', StartDate = ''10-12-2024'',
                EndDate = ''20-12-24'', Capacity = 5\<rparr>"

definition april31 :: Class where
  "april31 = \<lparr>ID = 0, ClassName = ''Dance'', StartDate = ''31-04-2024'',
              EndDate = ''20-05-2024'', Capacity = 5\<rparr>"

definition yoga_big :: Class where
  "yoga_big = \<lparr>ID = 0, ClassName = ''Yoga'', StartDate = ''01-12-2024'',
               EndDate = ''31-12-2024'', Capacity = 2\<rparr>"

definition yoga_small :: Class where
  "yoga_small = \<lparr>ID = 0, ClassName = ''Yoga'', StartDate = ''10-12-2024'',
                 EndDate = ''20-12-2024'', Capacity = 1\<rparr>"

definition rahul :: Booking where
  "rahul = \<lparr>B_ID = 0, MemberName = ''Rahul R P'', Date = ''16-12-2024'',
            B_ClassName = ''Pilates''\<rparr>"

definition john :: Booking where
  "john = \<lparr>B_ID = 0, MemberName = ''John Doe'', Date = ''16-12-2024'',
           B_ClassName = ''Pilates''\<rparr>"

definition christmas :: Booking where
  "christmas = \<lparr>B_ID = 0, MemberName = ''Jane Doe'', Date = ''25-12-2024'',
                B_ClassName = ''Pilates''\<rparr>"

definition first_day :: Booking where
  "first_day = \<lparr>B_ID = 0, MemberName = ''Jane Doe'', Date = ''01-12-2024'',
                B_ClassName = ''Pilates''\<rparr>"

definition last_day :: Booking where
  "last_day = \<lparr>B_ID = 0, MemberName = ''Jane Doe'', Date = ''20-12-2024'',
               B_ClassName = ''Pilates''\<rparr>"

definition feb31 :: Booking where
  "feb31 = \<lparr>B_ID = 0, MemberName = ''Alice'', Date = ''31-02-2024'',
            B_ClassName = ''Pilates''\<rparr>"

definition slashes :: Booking where
  "slashes = \<lparr>B_ID = 0, MemberName = ''Alice'', Date = ''12/16/2024'',
              B_ClassName = ''Pilates''\<rparr>"

definition anna :: Booking where
  "anna = \<lparr>B_ID = 0, MemberName = ''Anna'', Date = ''16-12-2024'', B_ClassName = ''Yoga''\<rparr>"

definition ben :: Booking where
  "ben = \<lparr>B_ID = 0, MemberName = ''Ben'', Date = ''16-12-2024'', B_ClassName = ''Yoga''\<rparr>"

text \<open>The state after the README's class is registered, and after its booking.\<close>

definition with_pilates :: System where
  "with_pilates = fresh\<lparr>classes := [pilates\<lparr>ID := 1\<rparr>], classId := 2,
                        classes_json := [pilates\<lparr>ID := 1\<rparr>]\<rparr>"

definition with_rahul :: System where
  "with_rahul = with_pilates\<lparr>bookings := [rahul\<lparr>B_ID := 1\<rparr>], bookingId := 2,
                             bookings_json := [rahul\<lparr>B_ID := 1\<rparr>]\<rparr>"

definition scenario_calls :: "call list" where
  "scenario_calls = [RegisterClass ''POST'' (Some pilates) Written,
                     CreateBooking ''POST'' (Some rahul) Written]"

text \<open>Two classes of one name over the same days, and two bookings of that name.\<close>

definition two_yogas :: "call list" where
  "two_yogas =
     [RegisterClass ''POST'' (Some yoga_big) Written,
      RegisterClass ''POST'' (Some yoga_small) Written,
      CreateBooking ''POST'' (Some anna) Written,
      CreateBooking ''POST'' (Some ben) Written]"

section \<open>Facts about the model\<close>

lemmas date_simps = isDigit_def digit_def isLeap_def daysIn_def parseIgnoringError_def
  zeroTime_def After_def Let_def

lemmas scenario_simps = fresh_def pilates_def rahul_def with_pilates_def with_rahul_def

lemmas yoga_simps = yoga_big_def yoga_small_def anna_def ben_def

subsection \<open>Signed arithmetic without overflow\<close>

lemma sint_of_nat_small: "int n < 2 ^ 63 \<Longrightarrow> sint (of_nat n :: goint) = int n"
  by (simp add: signed_of_nat signed_take_bit_int_eq_self)

lemma sint_diff_of_nat:
  assumes "0 \<le> sint (c :: goint)" and "int n < 2 ^ 63"
  shows "sint (c - of_nat n) = sint c - int n"
proof -
  have c: "sint c < 2 ^ 63"
    using sint_less [of c] by simp
  have "sint (c - of_nat n) = signed_take_bit 63 (sint c - int n)"
    by (simp add: sint_word_diff sint_of_nat_small [OF assms(2)])
  also have "\<dots> = sint c - int n"
    using assms c by (intro signed_take_bit_int_eq_self) linarith+
  finally show ?thesis .
qed

lemma sint_pred:
  assumes "\<not> (a :: goint) \<le>s 0"
  shows "sint (a - 1) = sint a - 1"
proof -
  have a: "0 < sint a" "sint a < 2 ^ 63"
    using assms sint_less [of a] by (simp_all add: word_sle_eq)
  have "sint (a - 1) = signed_take_bit 63 (sint a - 1)"
    by (simp add: sint_word_diff)
  also have "\<dots> = sint a - 1"
    using a by (intro signed_take_bit_int_eq_self) linarith+
  finally show ?thesis .
qed

lemma admitted_below_capacity:
  assumes le: "int n \<le> sint (cap :: goint)" and adm: "\<not> cap - of_nat n \<le>s 0"
  shows "int n < sint cap"
proof -
  have "sint cap < 2 ^ 63" using sint_less [of cap] by simp
  with le have n: "int n < 2 ^ 63" and c: "0 \<le> sint cap" by linarith+
  have "sint (cap - of_nat n) = sint cap - int n"
    using c n by (rule sint_diff_of_nat)
  with adm show ?thesis by (simp add: word_sle_eq)
qed

subsection \<open>Dates\<close>

lemma Before_irrefl: "\<not> Before t t"
  by (cases t) simp

lemma not_Before_iff: "(\<not> Before a b) = (a = b \<or> Before b a)"
  by (cases a; cases b) auto

lemma parseDate_accepts:
  "(parseDate str \<noteq> None) = (fixedLayout str \<and> calendarDay str)"
  by (induction str rule: parseDate.induct) (auto simp: Let_def)

subsection \<open>The loops\<close>

lemma countLoop_filter:
  "countLoop bs name date n =
     n + of_nat (length (filter (\<lambda>b. B_ClassName b = name \<and> Date b = date) bs))"
  by (induction bs arbitrary: n) auto

lemma currentBookings_filter:
  "currentBookings bs name date =
     of_nat (length (filter (\<lambda>b. B_ClassName b = name \<and> Date b = date) bs))"
  by (simp add: currentBookings_def countLoop_filter)

lemma currentBookings_countFor:
  "currentBookings bs name date = of_nat (countFor bs name date)"
  by (simp add: countFor_def currentBookings_filter)

lemma currentBookings_append:
  "currentBookings (bs @ [b]) name date =
     currentBookings bs name date + (if B_ClassName b = name \<and> Date b = date then 1 else 0)"
  by (simp add: currentBookings_filter)

lemma countFor_append:
  "countFor (bs @ [b]) name date =
     countFor bs name date + (if B_ClassName b = name \<and> Date b = date then 1 else 0)"
  by (simp add: countFor_def)

lemma countFor_pos:
  "0 < countFor bs name date \<Longrightarrow> \<exists>b\<in>set bs. B_ClassName b = name \<and> Date b = date"
  unfolding countFor_def by (induction bs) (auto split: if_splits)

lemma in_range_iff:
  "(\<not> Before d (parseIgnoringError (StartDate c)) \<and> \<not> After d (parseIgnoringError (EndDate c)))
     = containsDate c d"
  by (auto simp: containsDate_def Let_def After_def not_Before_iff)

lemma classFound_find:
  "classFound cs name d = List.find (\<lambda>c. ClassName c = name \<and> containsDate c d) cs"
  by (induction cs) (simp_all add: Let_def in_range_iff)

lemma FindActiveOn_Some:
  "FindActiveOn cs name d = Some c \<Longrightarrow>
     c \<in> set cs \<and> ClassName c = name \<and> containsDate c d"
  unfolding FindActiveOn_def by (induction cs) (auto split: if_splits)

lemma classFound_append:
  "classFound (cs @ [c]) name d =
     (case classFound cs name d of
        Some x \<Rightarrow> Some x
      | None \<Rightarrow> classFound [c] name d)"
  by (induction cs) (auto simp: Let_def)

lemma classFound_None:
  "(classFound cs name d = None) =
     (\<forall>c\<in>set cs. ClassName c = name \<longrightarrow>
        Before d (parseIgnoringError (StartDate c)) \<or> After d (parseIgnoringError (EndDate c)))"
  by (induction cs) (auto simp: Let_def)

subsection \<open>The handlers, outcome by outcome\<close>

lemma classHandler_reject_unchanged:
  "classHandler meth reqBody w sys = (Inl e, sys') \<Longrightarrow> e \<noteq> PersistenceFailure \<Longrightarrow> sys' = sys"
  by (auto simp: classHandler_def Let_def split: if_splits option.splits write_result.splits)

lemma bookingHandler_reject_unchanged:
  "bookingHandler meth reqBody w sys = (Inl e, sys') \<Longrightarrow> e \<noteq> PersistenceFailure \<Longrightarrow> sys' = sys"
  by (auto simp: bookingHandler_def Let_def split: if_splits option.splits write_result.splits)

lemma classHandler_success:
  assumes "classHandler meth reqBody w sys = (Inr r, sys')"
  shows "\<exists>nc sd ed. reqBody = Some nc \<and> meth = ''POST'' \<and> w = Written
      \<and> ClassName nc \<noteq> [] \<and> StartDate nc \<noteq> [] \<and> EndDate nc \<noteq> [] \<and> \<not> Capacity nc \<le>s 0
      \<and> parseDate (StartDate nc) = Some sd \<and> parseDate (EndDate nc) = Some ed
      \<and> \<not> Before ed sd
      \<and> r = ClassCreated (nc\<lparr>ID := classId sys\<rparr>)
      \<and> sys' = sys\<lparr>classId := classId sys + 1,
                    classes := classes sys @ [nc\<lparr>ID := classId sys\<rparr>],
                    classes_json := classes sys @ [nc\<lparr>ID := classId sys\<rparr>]\<rparr>"
  using assms
  by (auto simp: classHandler_def Let_def split: if_splits option.splits write_result.splits)


lemma bookingHandler_success:
  assumes "bookingHandler meth reqBody w sys = (Inr r, sys')"
  shows "\<exists>nb d c. reqBody = Some nb \<and> meth = ''POST'' \<and> w = Written
      \<and> MemberName nb \<noteq> [] \<and> Date nb \<noteq> [] \<and> B_ClassName nb \<noteq> []
      \<and> parseDate (Date nb) = Some d
      \<and> classFound (classes sys) (B_ClassName nb) d = Some c
      \<and> \<not> Capacity c - currentBookings (bookings sys) (B_ClassName nb) (Date nb) \<le>s 0
      \<and> r = BookingSuccessful (nb\<lparr>B_ID := bookingId sys\<rparr>)
              (Capacity c - currentBookings (bookings sys) (B_ClassName nb) (Date nb) - 1)
      \<and> sys' = sys\<lparr>bookingId := bookingId sys + 1,
                    bookings := bookings sys @ [nb\<lparr>B_ID := bookingId sys\<rparr>],
                    bookings_json := bookings sys @ [nb\<lparr>B_ID := bookingId sys\<rparr>]\<rparr>"
  using assms
  by (auto simp: bookingHandler_def Let_def split: if_splits option.splits write_result.splits)


lemma bookingHandler_admit:
  assumes "MemberName nb \<noteq> []" "Date nb \<noteq> []" "B_ClassName nb \<noteq> []"
    and "parseDate (Date nb) = Some d"
    and "classFound (classes sys) (B_ClassName nb) d = Some c"
    and "\<not> Capacity c - currentBookings (bookings sys) (B_ClassName nb) (Date nb) \<le>s 0"
  shows "bookingHandler ''POST'' (Some nb) w sys =
     (case w of
        Written \<Rightarrow>
          (Inr (BookingSuccessful (nb\<lparr>B_ID := bookingId sys\<rparr>)
              (Capacity c - currentBookings (bookings sys) (B_ClassName nb) (Date nb) - 1)),
           sys\<lparr>bookingId := bookingId sys + 1,
               bookings := bookings sys @ [nb\<lparr>B_ID := bookingId sys\<rparr>],
               bookings_json := bookings sys @ [nb\<lparr>B_ID := bookingId sys\<rparr>]\<rparr>)
      | WriteFailed left \<Rightarrow>
          (Inl PersistenceFailure,
           sys\<lparr>bookingId := bookingId sys + 1,
               bookings := bookings sys @ [nb\<lparr>B_ID := bookingId sys\<rparr>],
               bookings_json := left\<rparr>))"
  using assms by (simp add: bookingHandler_def Let_def split: write_result.splits)

subsection \<open>What one call does to the slices and the counters\<close>

lemma classHandler_effect:
  "snd (classHandler meth reqBody w sys) = sys
   \<or> (\<exists>nc. \<not> Capacity nc \<le>s 0
        \<and> classes (snd (classHandler meth reqBody w sys)) = classes sys @ [nc\<lparr>ID := classId sys\<rparr>]
        \<and> classId (snd (classHandler meth reqBody w sys)) = classId sys + 1
        \<and> bookings (snd (classHandler meth reqBody w sys)) = bookings sys
        \<and> bookingId (snd (classHandler meth reqBody w sys)) = bookingId sys)"
  by (auto simp: classHandler_def Let_def split: option.splits write_result.splits)

lemma bookingHandler_effect:
  "snd (bookingHandler meth reqBody w sys) = sys
   \<or> (\<exists>nb d c. parseDate (Date nb) = Some d
        \<and> classFound (classes sys) (B_ClassName nb) d = Some c
        \<and> \<not> Capacity c - currentBookings (bookings sys) (B_ClassName nb) (Date nb) \<le>s 0
        \<and> bookings (snd (bookingHandler meth reqBody w sys)) =
            bookings sys @ [nb\<lparr>B_ID := bookingId sys\<rparr>]
        \<and> bookingId (snd (bookingHandler meth reqBody w sys)) = bookingId sys + 1
        \<and> classes (snd (bookingHandler meth reqBody w sys)) = classes sys
        \<and> classId (snd (bookingHandler meth reqBody w sys)) = classId sys)"
  by (auto simp: bookingHandler_def Let_def split: option.splits write_result.splits)

subsection \<open>The capacity invariant\<close>

lemma within_capacity_fresh: "within_capacity fresh"
  by (simp add: within_capacity_def fresh_def countFor_def)

lemma within_capacity_register:
  assumes inv: "within_capacity sys"
    and cap: "\<not> Capacity nc \<le>s 0"
    and cs: "classes sys' = classes sys @ [nc]"
    and bs: "bookings sys' = bookings sys"
  shows "within_capacity sys'"
  unfolding within_capacity_def
proof (intro conjI ballI allI impI)
  fix b assume "b \<in> set (bookings sys')"
  with inv bs obtain d where "parseDate (Date b) = Some d"
    and "classFound (classes sys) (B_ClassName b) d \<noteq> None"
    unfolding within_capacity_def by auto
  then show "\<exists>d. parseDate (Date b) = Some d \<and> classFound (classes sys') (B_ClassName b) d \<noteq> None"
    by (auto simp: cs classFound_append)
next
  fix name date d c
  assume a: "parseDate date = Some d \<and> classFound (classes sys') name d = Some c"
  show "int (countFor (bookings sys') name date) \<le> sint (Capacity c)"
  proof (cases "classFound (classes sys) name d")
    case (Some x)
    with a have "x = c" by (simp add: cs classFound_append)
    with Some a inv show ?thesis unfolding within_capacity_def bs by blast
  next
    case None
    with a have "classFound [nc] name d = Some c" by (simp add: cs classFound_append)
    then have c: "c = nc" by (simp add: Let_def split: if_splits)
    have "countFor (bookings sys) name date = 0"
    proof (rule ccontr)
      assume "countFor (bookings sys) name date \<noteq> 0"
      then obtain b where b: "b \<in> set (bookings sys)" "B_ClassName b = name" "Date b = date"
        using countFor_pos [of "bookings sys" name date] by auto
      with inv obtain d' where "parseDate (Date b) = Some d'"
        and "classFound (classes sys) (B_ClassName b) d' \<noteq> None"
        unfolding within_capacity_def by blast
      with b a None show False by simp
    qed
    moreover have "0 \<le> sint (Capacity nc)" using cap by (simp add: word_sle_eq)
    ultimately show ?thesis by (simp add: bs c)
  qed
qed

lemma within_capacity_book:
  assumes inv: "within_capacity sys"
    and d: "parseDate (Date nb) = Some d"
    and c: "classFound (classes sys) (B_ClassName nb) d = Some c"
    and adm: "\<not> Capacity c - currentBookings (bookings sys) (B_ClassName nb) (Date nb) \<le>s 0"
    and cs: "classes sys' = classes sys"
    and bs: "bookings sys' = bookings sys @ [nb\<lparr>B_ID := i\<rparr>]"
  shows "within_capacity sys'"
  unfolding within_capacity_def
proof (intro conjI ballI allI impI)
  fix b assume "b \<in> set (bookings sys')"
  then consider "b \<in> set (bookings sys)" | "b = nb\<lparr>B_ID := i\<rparr>" by (auto simp: bs)
  then show "\<exists>d. parseDate (Date b) = Some d \<and> classFound (classes sys') (B_ClassName b) d \<noteq> None"
  proof cases
    case 1
    with inv show ?thesis unfolding within_capacity_def cs by blast
  next
    case 2
    with d c show ?thesis by (simp add: cs)
  qed
next
  fix name date d' c'
  assume a: "parseDate date = Some d' \<and> classFound (classes sys') name d' = Some c'"
  with inv have old: "int (countFor (bookings sys) name date) \<le> sint (Capacity c')"
    unfolding within_capacity_def cs by blast
  show "int (countFor (bookings sys') name date) \<le> sint (Capacity c')"
  proof (cases "B_ClassName nb = name \<and> Date nb = date")
    case True
    with a d c have same: "c' = c" by (simp add: cs)
    from adm True have "\<not> Capacity c - of_nat (countFor (bookings sys) name date) \<le>s 0"
      by (simp add: currentBookings_countFor)
    with old have "int (countFor (bookings sys) name date) < sint (Capacity c)"
      unfolding same by (rule admitted_below_capacity)
    with True show ?thesis by (simp add: bs countFor_append same)
  next
    case False
    with old show ?thesis by (auto simp: bs countFor_append)
  qed
qed

lemma within_capacity_step:
  assumes inv: "within_capacity sys"
  shows "within_capacity (step call sys)"
proof (cases call)
  case (RegisterClass meth reqBody w)
  from classHandler_effect [of meth reqBody w sys] show ?thesis
  proof (elim disjE exE conjE)
    assume "snd (classHandler meth reqBody w sys) = sys"
    with inv show ?thesis by (simp add: RegisterClass)
  next
    fix nc
    assume "\<not> Capacity nc \<le>s 0"
      and "classes (snd (classHandler meth reqBody w sys)) = classes sys @ [nc\<lparr>ID := classId sys\<rparr>]"
      and "bookings (snd (classHandler meth reqBody w sys)) = bookings sys"
    then show ?thesis
      using within_capacity_register [OF inv, of "nc\<lparr>ID := classId sys\<rparr>"]
      by (simp add: RegisterClass)
  qed
next
  case (CreateBooking meth reqBody w)
  from bookingHandler_effect [of meth reqBody w sys] show ?thesis
  proof (elim disjE exE conjE)
    assume "snd (bookingHandler meth reqBody w sys) = sys"
    with inv show ?thesis by (simp add: CreateBooking)
  next
    fix nb d c
    assume "parseDate (Date nb) = Some d"
      and "classFound (classes sys) (B_ClassName nb) d = Some c"
      and "\<not> Capacity c - currentBookings (bookings sys) (B_ClassName nb) (Date nb) \<le>s 0"
      and "bookings (snd (bookingHandler meth reqBody w sys)) =
            bookings sys @ [nb\<lparr>B_ID := bookingId sys\<rparr>]"
      and "classes (snd (bookingHandler meth reqBody w sys)) = classes sys"
    then show ?thesis
      using within_capacity_book [OF inv] by (simp add: CreateBooking)
  qed
qed

lemma within_capacity_run: "within_capacity sys \<Longrightarrow> within_capacity (run calls sys)"
  unfolding run_def by (induction calls arbitrary: sys) (simp_all add: within_capacity_step)

subsection \<open>The stored IDs\<close>

lemma ids_consecutive_fresh: "ids_consecutive fresh"
  by (simp add: ids_consecutive_def fresh_def)

lemma ids_consecutive_step:
  assumes inv: "ids_consecutive sys"
  shows "ids_consecutive (step call sys)"
proof (cases call)
  case (RegisterClass meth reqBody w)
  from classHandler_effect [of meth reqBody w sys] inv show ?thesis
    unfolding RegisterClass step.simps ids_consecutive_def by (elim disjE exE) simp_all
next
  case (CreateBooking meth reqBody w)
  from bookingHandler_effect [of meth reqBody w sys] inv show ?thesis
    unfolding CreateBooking step.simps ids_consecutive_def by (elim disjE exE) simp_all
qed

lemma ids_consecutive_run: "ids_consecutive sys \<Longrightarrow> ids_consecutive (run calls sys)"
  unfolding run_def by (induction calls arbitrary: sys) (simp_all add: ids_consecutive_step)

subsection \<open>The worked scenarios\<close>

text \<open>Scenarios 1 and 2 of the specification, which are the two examples of the README.\<close>

lemma scenario_1:
  "classHandler ''POST'' (Some pilates) Written fresh =
     (Inr (ClassCreated (pilates\<lparr>ID := 1\<rparr>)), with_pilates)"
  by (simp add: classHandler_def scenario_simps date_simps word_sle_eq)

lemma scenario_2:
  "bookingHandler ''POST'' (Some rahul) Written with_pilates =
     (Inr (BookingSuccessful (rahul\<lparr>B_ID := 1\<rparr>) 9), with_rahul)"
  by (simp add: bookingHandler_def scenario_simps date_simps currentBookings_def word_sle_eq)

lemma run_scenario_calls: "run scenario_calls fresh = with_rahul"
  by (simp add: run_def scenario_calls_def classHandler_def bookingHandler_def scenario_simps
      date_simps currentBookings_def word_sle_eq)

lemma run_two_yogas:
  "run two_yogas fresh =
     \<lparr>classes = [yoga_big\<lparr>ID := 1\<rparr>, yoga_small\<lparr>ID := 2\<rparr>],
      bookings = [anna\<lparr>B_ID := 1\<rparr>, ben\<lparr>B_ID := 2\<rparr>],
      classId = 3, bookingId = 3,
      classes_json = [yoga_big\<lparr>ID := 1\<rparr>, yoga_small\<lparr>ID := 2\<rparr>],
      bookings_json = [anna\<lparr>B_ID := 1\<rparr>, ben\<lparr>B_ID := 2\<rparr>]\<rparr>"
  by (simp add: run_def two_yogas_def yoga_simps fresh_def classHandler_def bookingHandler_def
      date_simps currentBookings_def word_sle_eq)

lemma run_two_yogas_registered:
  "run (take 2 two_yogas) fresh =
     \<lparr>classes = [yoga_big\<lparr>ID := 1\<rparr>, yoga_small\<lparr>ID := 2\<rparr>], bookings = [],
      classId = 3, bookingId = 1,
      classes_json = [yoga_big\<lparr>ID := 1\<rparr>, yoga_small\<lparr>ID := 2\<rparr>], bookings_json = []\<rparr>"
  by (simp add: run_def two_yogas_def yoga_simps fresh_def classHandler_def date_simps
      word_sle_eq)

lemma run_two_yogas_one_booked:
  "run (take 3 two_yogas) fresh =
     \<lparr>classes = [yoga_big\<lparr>ID := 1\<rparr>, yoga_small\<lparr>ID := 2\<rparr>],
      bookings = [anna\<lparr>B_ID := 1\<rparr>],
      classId = 3, bookingId = 2,
      classes_json = [yoga_big\<lparr>ID := 1\<rparr>, yoga_small\<lparr>ID := 2\<rparr>],
      bookings_json = [anna\<lparr>B_ID := 1\<rparr>]\<rparr>"
  by (simp add: run_def two_yogas_def yoga_simps fresh_def classHandler_def bookingHandler_def
      date_simps currentBookings_def word_sle_eq)

text \<open>
  A second process, started on the files the first one wrote: \<open>main\<close> loads the class and
  the booking with ID 1, the counters start at 1 again, and the next class and the next
  booking get ID 1 too.
\<close>

lemma ids_start_again_at_1_after_restart:
  "classes (main with_rahul) = [pilates\<lparr>ID := 1\<rparr>]
   \<and> bookings (main with_rahul) = [rahul\<lparr>B_ID := 1\<rparr>]
   \<and> classHandler ''POST'' (Some one_day) Written (main with_rahul) =
       (Inr (ClassCreated (one_day\<lparr>ID := 1\<rparr>)),
        with_rahul\<lparr>classes := [pilates\<lparr>ID := 1\<rparr>, one_day\<lparr>ID := 1\<rparr>], classId := 2,
                   bookingId := 1,
                   classes_json := [pilates\<lparr>ID := 1\<rparr>, one_day\<lparr>ID := 1\<rparr>]\<rparr>)
   \<and> bookingHandler ''POST'' (Some john) Written (main with_rahul) =
       (Inr (BookingSuccessful (john\<lparr>B_ID := 1\<rparr>) 8),
        with_rahul\<lparr>bookings := [rahul\<lparr>B_ID := 1\<rparr>, john\<lparr>B_ID := 1\<rparr>], classId := 1,
                   bookingId := 2,
                   bookings_json := [rahul\<lparr>B_ID := 1\<rparr>, john\<lparr>B_ID := 1\<rparr>]\<rparr>)"
  by (simp add: classHandler_def bookingHandler_def main_def scenario_simps one_day_def john_def
      date_simps currentBookings_def word_sle_eq)

section \<open>The claims\<close>

subsection \<open>C1: the capacity invariant\<close>

text \<open>
  C1 as it is worded, for every class and every date, does not hold: class names need not
  be unique, and a booking is checked against the first class of its name whose range
  holds the date. After the run \<open>two_yogas\<close> the catalog holds a second class named Yoga
  with capacity 1 whose range holds 16 December 2024, and two bookings are stored for
  Yoga on that day, both admitted against the first class of capacity 2.
\<close>

theorem capacity_counterexample:
  "classes (run two_yogas fresh) = [yoga_big\<lparr>ID := 1\<rparr>, yoga_small\<lparr>ID := 2\<rparr>]
   \<and> ClassName (yoga_small\<lparr>ID := 2\<rparr>) = ''Yoga''
   \<and> containsDate (yoga_small\<lparr>ID := 2\<rparr>) (YMD 2024 12 16)
   \<and> Capacity (yoga_small\<lparr>ID := 2\<rparr>) = 1
   \<and> countFor (bookings (run two_yogas fresh)) ''Yoga'' ''16-12-2024'' = 2
   \<and> currentBookings (bookings (run two_yogas fresh)) ''Yoga'' ''16-12-2024'' = 2
   \<and> \<not> int (countFor (bookings (run two_yogas fresh)) ''Yoga'' ''16-12-2024'')
         \<le> sint (Capacity (yoga_small\<lparr>ID := 2\<rparr>))"
  by (simp add: run_two_yogas countFor_def currentBookings_def yoga_simps containsDate_def
      date_simps)

text \<open>
  C1, amended. In a process started on empty files, after any sequence of requests to the
  two routes (whatever their methods, bodies and write outcomes), for every class name and
  every date text that parses: when the lookup finds a class for that name and date, the
  number of stored bookings with that name and date text is at most the capacity of the
  class found. And a booking for that name and date is appended only when the count
  before it is strictly below that capacity.
\<close>

theorem capacity_of_selected_class_never_exceeded:
  assumes "parseDate date = Some d"
    and "classFound (classes (run calls fresh)) name d = Some c"
  shows "int (countFor (bookings (run calls fresh)) name date) \<le> sint (Capacity c)
     \<and> (B_ClassName nb = name \<and> Date nb = date
         \<and> bookings (snd (bookingHandler meth (Some nb) w (run calls fresh)))
             \<noteq> bookings (run calls fresh)
        \<longrightarrow> int (countFor (bookings (run calls fresh)) name date) < sint (Capacity c))"
proof -
  let ?sys = "run calls fresh"
  have inv: "within_capacity ?sys"
    using within_capacity_fresh by (rule within_capacity_run)
  with assms have le: "int (countFor (bookings ?sys) name date) \<le> sint (Capacity c)"
    unfolding within_capacity_def by blast
  have "int (countFor (bookings ?sys) name date) < sint (Capacity c)"
    if nb: "B_ClassName nb = name" "Date nb = date"
      and ch: "bookings (snd (bookingHandler meth (Some nb) w ?sys)) \<noteq> bookings ?sys"
  proof -
    from ch assms nb have "\<not> Capacity c - currentBookings (bookings ?sys) name date \<le>s 0"
      by (auto simp: bookingHandler_def Let_def split: if_splits)
    then have "\<not> Capacity c - of_nat (countFor (bookings ?sys) name date) \<le>s 0"
      by (simp add: currentBookings_countFor)
    with le show ?thesis by (rule admitted_below_capacity)
  qed
  with le show ?thesis by blast
qed

text \<open>
  The amended C1 at the run \<open>two_yogas\<close>: the class found for Yoga on 16 December 2024 is
  the first one, the two bookings are within its capacity 2, and the first of them was
  appended when the count was 0.
\<close>

theorem capacity_of_selected_class_never_exceeded_witness:
  "parseDate ''16-12-2024'' = Some (YMD 2024 12 16)
   \<and> classFound (classes (run two_yogas fresh)) ''Yoga'' (YMD 2024 12 16)
       = Some (yoga_big\<lparr>ID := 1\<rparr>)
   \<and> int (countFor (bookings (run two_yogas fresh)) ''Yoga'' ''16-12-2024'')
       \<le> sint (Capacity (yoga_big\<lparr>ID := 1\<rparr>))
   \<and> B_ClassName anna = ''Yoga'' \<and> Date anna = ''16-12-2024''
   \<and> bookings (snd (bookingHandler ''POST'' (Some anna) Written (run (take 2 two_yogas) fresh)))
       \<noteq> bookings (run (take 2 two_yogas) fresh)
   \<and> int (countFor (bookings (run (take 2 two_yogas) fresh)) ''Yoga'' ''16-12-2024'')
       < sint (Capacity (yoga_big\<lparr>ID := 1\<rparr>))"
proof -
  have h1: "parseDate ''16-12-2024'' = Some (YMD 2024 12 16)"
    by (simp add: date_simps)
  have h2: "classFound (classes (run two_yogas fresh)) ''Yoga'' (YMD 2024 12 16)
      = Some (yoga_big\<lparr>ID := 1\<rparr>)"
    by (simp add: run_two_yogas yoga_simps date_simps)
  have h3: "classFound (classes (run (take 2 two_yogas) fresh)) ''Yoga'' (YMD 2024 12 16)
      = Some (yoga_big\<lparr>ID := 1\<rparr>)"
    by (simp add: run_two_yogas_registered yoga_simps date_simps)
  have h4: "B_ClassName anna = ''Yoga''" "Date anna = ''16-12-2024''"
    by (simp_all add: anna_def)
  have h5: "bookings (snd (bookingHandler ''POST'' (Some anna) Written (run (take 2 two_yogas) fresh)))
       \<noteq> bookings (run (take 2 two_yogas) fresh)"
    by (simp add: run_two_yogas_registered bookingHandler_def yoga_simps date_simps
        currentBookings_def word_sle_eq)
  have c1: "int (countFor (bookings (run two_yogas fresh)) ''Yoga'' ''16-12-2024'')
       \<le> sint (Capacity (yoga_big\<lparr>ID := 1\<rparr>))"
    using capacity_of_selected_class_never_exceeded [OF h1 h2] by (rule conjunct1)
  have c2: "int (countFor (bookings (run (take 2 two_yogas) fresh)) ''Yoga'' ''16-12-2024'')
       < sint (Capacity (yoga_big\<lparr>ID := 1\<rparr>))"
    using capacity_of_selected_class_never_exceeded
      [OF h1 h3, of anna "''POST''" Written, THEN conjunct2] h4 h5
    by blast
  show ?thesis
    using h1 h2 c1 h4 h5 c2 by (intro conjI)
qed

subsection \<open>C2: the identity counters\<close>

text \<open>
  C2 as it is worded does not hold inside one process either: a call whose file write
  fails has already taken an ID and stored its record, so the successful calls do not
  get gap-free IDs from 1. Here the first call is answered with the write failure, and
  the first successful call returns ID 2.
\<close>

theorem failed_write_skips_id_counterexample:
  "classHandler ''POST'' (Some pilates) (WriteFailed []) fresh =
     (Inl PersistenceFailure, fresh\<lparr>classId := 2, classes := [pilates\<lparr>ID := 1\<rparr>]\<rparr>)
   \<and> fst (classHandler ''POST'' (Some one_day) Written
            (fresh\<lparr>classId := 2, classes := [pilates\<lparr>ID := 1\<rparr>]\<rparr>))
       = Inr (ClassCreated (one_day\<lparr>ID := 2\<rparr>))"
  by (simp add: classHandler_def scenario_simps one_day_def date_simps word_sle_eq)

text \<open>
  C2, amended. In a process started on empty files, after any sequence of requests, the
  stored classes carry the IDs 1, 2, 3, ... in the order they were appended, and so do the
  stored bookings. Every call that passes the checks appends, also one whose write then
  fails. A call answered with success returns the ID one above the number of records
  stored before it and appends its record.
\<close>

theorem ids_number_the_appends:
  "map ID (classes (run calls fresh)) = map of_nat [1..<Suc (length (classes (run calls fresh)))]
   \<and> map B_ID (bookings (run calls fresh))
       = map of_nat [1..<Suc (length (bookings (run calls fresh)))]
   \<and> (classHandler meth reqBody w (run calls fresh) = (Inr (ClassCreated c), sys') \<longrightarrow>
        ID c = of_nat (Suc (length (classes (run calls fresh))))
        \<and> classes sys' = classes (run calls fresh) @ [c])
   \<and> (bookingHandler meth' reqBody' w' (run calls fresh) = (Inr (BookingSuccessful b k), sys'')
      \<longrightarrow> B_ID b = of_nat (Suc (length (bookings (run calls fresh))))
        \<and> bookings sys'' = bookings (run calls fresh) @ [b])"
proof -
  have inv: "ids_consecutive (run calls fresh)"
    using ids_consecutive_fresh by (rule ids_consecutive_run)
  have c: "ID c = of_nat (Suc (length (classes (run calls fresh))))
      \<and> classes sys' = classes (run calls fresh) @ [c]"
    if "classHandler meth reqBody w (run calls fresh) = (Inr (ClassCreated c), sys')"
    using classHandler_success [OF that] inv by (auto simp: ids_consecutive_def)
  have b: "B_ID b = of_nat (Suc (length (bookings (run calls fresh))))
      \<and> bookings sys'' = bookings (run calls fresh) @ [b]"
    if "bookingHandler meth' reqBody' w' (run calls fresh) = (Inr (BookingSuccessful b k), sys'')"
    using bookingHandler_success [OF that] inv by (auto simp: ids_consecutive_def)
  from inv c b show ?thesis unfolding ids_consecutive_def by blast
qed

text \<open>
  The amended C2 after the two calls of the README: the next class and the next booking
  both get ID 2.
\<close>

theorem ids_number_the_appends_witness:
  "classHandler ''POST'' (Some one_day) Written (run scenario_calls fresh) =
     (Inr (ClassCreated (one_day\<lparr>ID := 2\<rparr>)),
      with_rahul\<lparr>classId := 3, classes := [pilates\<lparr>ID := 1\<rparr>, one_day\<lparr>ID := 2\<rparr>],
                 classes_json := [pilates\<lparr>ID := 1\<rparr>, one_day\<lparr>ID := 2\<rparr>]\<rparr>)
   \<and> bookingHandler ''POST'' (Some john) Written (run scenario_calls fresh) =
     (Inr (BookingSuccessful (john\<lparr>B_ID := 2\<rparr>) 8),
      with_rahul\<lparr>bookingId := 3, bookings := [rahul\<lparr>B_ID := 1\<rparr>, john\<lparr>B_ID := 2\<rparr>],
                 bookings_json := [rahul\<lparr>B_ID := 1\<rparr>, john\<lparr>B_ID := 2\<rparr>]\<rparr>)
   \<and> ID (one_day\<lparr>ID := 2\<rparr>) = of_nat (Suc (length (classes (run scenario_calls fresh))))
   \<and> B_ID (john\<lparr>B_ID := 2\<rparr>) = of_nat (Suc (length (bookings (run scenario_calls fresh))))"
proof -
  have h1: "classHandler ''POST'' (Some one_day) Written (run scenario_calls fresh) =
     (Inr (ClassCreated (one_day\<lparr>ID := 2\<rparr>)),
      with_rahul\<lparr>classId := 3, classes := [pilates\<lparr>ID := 1\<rparr>, one_day\<lparr>ID := 2\<rparr>],
                 classes_json := [pilates\<lparr>ID := 1\<rparr>, one_day\<lparr>ID := 2\<rparr>]\<rparr>)"
    unfolding run_scenario_calls
    by (simp add: classHandler_def scenario_simps one_day_def date_simps word_sle_eq)
  have h2: "bookingHandler ''POST'' (Some john) Written (run scenario_calls fresh) =
     (Inr (BookingSuccessful (john\<lparr>B_ID := 2\<rparr>) 8),
      with_rahul\<lparr>bookingId := 3, bookings := [rahul\<lparr>B_ID := 1\<rparr>, john\<lparr>B_ID := 2\<rparr>],
                 bookings_json := [rahul\<lparr>B_ID := 1\<rparr>, john\<lparr>B_ID := 2\<rparr>]\<rparr>)"
    unfolding run_scenario_calls
    by (simp add: bookingHandler_def scenario_simps john_def date_simps currentBookings_def
        word_sle_eq)
  have c: "ID (one_day\<lparr>ID := 2\<rparr>) = of_nat (Suc (length (classes (run scenario_calls fresh))))"
    using ids_number_the_appends
      [THEN conjunct2, THEN conjunct2, THEN conjunct1, rule_format, OF h1]
    by (rule conjunct1)
  have b: "B_ID (john\<lparr>B_ID := 2\<rparr>) = of_nat (Suc (length (bookings (run scenario_calls fresh))))"
    using ids_number_the_appends
      [THEN conjunct2, THEN conjunct2, THEN conjunct2, rule_format, OF h2]
    by (rule conjunct1)
  show ?thesis
    using h1 h2 c b by (intro conjI)
qed

subsection \<open>C3: the slots in the reply\<close>

text \<open>
  C3. When a booking is answered with success, the \<open>availableSlots\<close> of the reply is the
  capacity of the matching class, minus the count of stored bookings with the request's
  class name and date text taken before it, minus 1, in Go's arithmetic. The matching
  class is the specification's \<open>FindActiveOn\<close> for the request's class name and parsed
  date: a stored class of that name whose range holds that date. When its capacity is
  not negative and the slice is shorter than \<open>2 ^ 63\<close> the equation holds over the
  integers too.
\<close>

theorem availableSlots_after_booking:
  assumes "bookingHandler meth reqBody w sys = (Inr (BookingSuccessful b k), sys')"
  shows "\<exists>nb d c. reqBody = Some nb \<and> parseDate (Date nb) = Some d
     \<and> FindActiveOn (classes sys) (B_ClassName nb) d = Some c
     \<and> c \<in> set (classes sys) \<and> ClassName c = B_ClassName nb \<and> containsDate c d
     \<and> k = Capacity c - of_nat (countFor (bookings sys) (B_ClassName nb) (Date nb)) - 1
     \<and> (0 \<le> sint (Capacity c) \<and> length (bookings sys) < 2 ^ 63 \<longrightarrow>
          sint k = sint (Capacity c)
                   - int (countFor (bookings sys) (B_ClassName nb) (Date nb)) - 1)"
proof -
  from bookingHandler_success [OF assms] obtain nb d c where
    nb: "reqBody = Some nb" and d: "parseDate (Date nb) = Some d"
    and c: "classFound (classes sys) (B_ClassName nb) d = Some c"
    and avail: "\<not> Capacity c - currentBookings (bookings sys) (B_ClassName nb) (Date nb) \<le>s 0"
    and k: "k = Capacity c - currentBookings (bookings sys) (B_ClassName nb) (Date nb) - 1"
    by auto
  let ?n = "countFor (bookings sys) (B_ClassName nb) (Date nb)"
  have cnt: "currentBookings (bookings sys) (B_ClassName nb) (Date nb) = of_nat ?n"
    by (rule currentBookings_countFor)
  from c have found: "FindActiveOn (classes sys) (B_ClassName nb) d = Some c"
    by (simp add: classFound_find FindActiveOn_def)
  from FindActiveOn_Some [OF found]
  have match: "c \<in> set (classes sys)" "ClassName c = B_ClassName nb" "containsDate c d"
    by simp_all
  have k': "k = Capacity c - of_nat ?n - 1"
    using k by (simp add: cnt)
  have "sint k = sint (Capacity c) - int ?n - 1"
    if cap: "0 \<le> sint (Capacity c)" and len: "length (bookings sys) < 2 ^ 63"
  proof -
    have "?n \<le> length (bookings sys)"
      unfolding countFor_def by (rule length_filter_le)
    from this len have "?n < 2 ^ 63" by (rule le_less_trans)
    then have n: "int ?n < 2 ^ 63" by simp
    have "sint k = sint (Capacity c - of_nat ?n) - 1"
      using avail by (simp add: k cnt sint_pred)
    also have "sint (Capacity c - of_nat ?n) = sint (Capacity c) - int ?n"
      using cap n by (rule sint_diff_of_nat)
    finally show ?thesis .
  qed
  with nb d found match k' show ?thesis by blast
qed

text \<open>
  C3 at the README's booking: the matching class is the Pilates class of capacity 10,
  no booking is stored for it on 16 December 2024, and the reply carries 9 slots.
\<close>

theorem availableSlots_after_booking_witness:
  "bookingHandler ''POST'' (Some rahul) Written with_pilates =
     (Inr (BookingSuccessful (rahul\<lparr>B_ID := 1\<rparr>) 9), with_rahul)
   \<and> parseDate (Date rahul) = Some (YMD 2024 12 16)
   \<and> FindActiveOn (classes with_pilates) (B_ClassName rahul) (YMD 2024 12 16)
       = Some (pilates\<lparr>ID := 1\<rparr>)
   \<and> ClassName (pilates\<lparr>ID := 1\<rparr>) = B_ClassName rahul
   \<and> containsDate (pilates\<lparr>ID := 1\<rparr>) (YMD 2024 12 16)
   \<and> Capacity (pilates\<lparr>ID := 1\<rparr>) = 10
   \<and> countFor (bookings with_pilates) (B_ClassName rahul) (Date rahul) = 0
   \<and> (9 :: goint) = Capacity (pilates\<lparr>ID := 1\<rparr>)
        - of_nat (countFor (bookings with_pilates) (B_ClassName rahul) (Date rahul)) - 1
   \<and> sint (9 :: goint) = sint (Capacity (pilates\<lparr>ID := 1\<rparr>))
        - int (countFor (bookings with_pilates) (B_ClassName rahul) (Date rahul)) - 1"
proof -
  have h1: "bookingHandler ''POST'' (Some rahul) Written with_pilates =
     (Inr (BookingSuccessful (rahul\<lparr>B_ID := 1\<rparr>) 9), with_rahul)"
    by (rule scenario_2)
  have h2: "parseDate (Date rahul) = Some (YMD 2024 12 16)"
    by (simp add: rahul_def date_simps)
  have h3: "FindActiveOn (classes with_pilates) (B_ClassName rahul) (YMD 2024 12 16)
      = Some (pilates\<lparr>ID := 1\<rparr>)"
    by (simp add: FindActiveOn_def containsDate_def scenario_simps date_simps)
  have h4: "Capacity (pilates\<lparr>ID := 1\<rparr>) = 10"
    "countFor (bookings with_pilates) (B_ClassName rahul) (Date rahul) = 0"
    "length (bookings with_pilates) = 0"
    by (simp_all add: scenario_simps countFor_def)
  from availableSlots_after_booking [OF h1] obtain nb d c where
    nb: "Some rahul = Some nb" and d: "parseDate (Date nb) = Some d"
    and c: "FindActiveOn (classes with_pilates) (B_ClassName nb) d = Some c"
    and m: "ClassName c = B_ClassName nb" "containsDate c d"
    and k: "(9 :: goint) = Capacity c
        - of_nat (countFor (bookings with_pilates) (B_ClassName nb) (Date nb)) - 1"
    and i: "0 \<le> sint (Capacity c) \<and> length (bookings with_pilates) < 2 ^ 63 \<longrightarrow>
          sint (9 :: goint) = sint (Capacity c)
                   - int (countFor (bookings with_pilates) (B_ClassName nb) (Date nb)) - 1"
    by blast
  from nb have nb': "nb = rahul" by simp
  from d h2 have d': "d = YMD 2024 12 16" by (simp add: nb')
  from c h3 have c': "c = pilates\<lparr>ID := 1\<rparr>" by (simp add: nb' d')
  have m1: "ClassName (pilates\<lparr>ID := 1\<rparr>) = B_ClassName rahul"
    using m(1) unfolding nb' c' .
  have m2: "containsDate (pilates\<lparr>ID := 1\<rparr>) (YMD 2024 12 16)"
    using m(2) unfolding d' c' .
  have c1: "(9 :: goint) = Capacity (pilates\<lparr>ID := 1\<rparr>)
        - of_nat (countFor (bookings with_pilates) (B_ClassName rahul) (Date rahul)) - 1"
    using k unfolding nb' c' .
  have c2: "sint (9 :: goint) = sint (Capacity (pilates\<lparr>ID := 1\<rparr>))
        - int (countFor (bookings with_pilates) (B_ClassName rahul) (Date rahul)) - 1"
    using i h4(1,3) unfolding nb' c' by simp
  show ?thesis
    using h1 h2 h3 m1 m2 h4(1,2) c1 c2 by (intro conjI)
qed

subsection \<open>C4: dates outside the range\<close>

text \<open>
  C4. A booking request that reaches the lookup (method POST, body decoded, member and
  class name present, date parsed) is answered with \<open>ClassUnavailable\<close>, the state left as
  it was, exactly when every stored class of its name has the parsed date strictly
  before its start or strictly after its end; the capacity plays no part. A date equal
  to the start or to the end of a class of that name whose end is not before its start
  is never answered so.
\<close>

theorem booking_outside_range_rejected:
  assumes "MemberName nb \<noteq> []" and "B_ClassName nb \<noteq> []"
    and "parseDate (Date nb) = Some d"
  shows "((bookingHandler ''POST'' (Some nb) w sys = (Inl ClassUnavailable, sys)) =
           (\<forall>c\<in>set (classes sys). ClassName c = B_ClassName nb \<longrightarrow>
              Before d (parseIgnoringError (StartDate c))
              \<or> After d (parseIgnoringError (EndDate c))))
     \<and> (\<forall>c\<in>set (classes sys).
           ClassName c = B_ClassName nb
           \<and> \<not> Before (parseIgnoringError (EndDate c)) (parseIgnoringError (StartDate c))
           \<and> (d = parseIgnoringError (StartDate c) \<or> d = parseIgnoringError (EndDate c))
         \<longrightarrow> fst (bookingHandler ''POST'' (Some nb) w sys) \<noteq> Inl ClassUnavailable)"
proof -
  from assms(3) have date: "Date nb \<noteq> []" by auto
  have iff: "(bookingHandler ''POST'' (Some nb) w sys = (Inl ClassUnavailable, sys)) =
      (classFound (classes sys) (B_ClassName nb) d = None)"
    using assms date by (auto simp: bookingHandler_def Let_def split: option.splits write_result.splits)
  have fst_iff: "(fst (bookingHandler ''POST'' (Some nb) w sys) = Inl ClassUnavailable) =
      (classFound (classes sys) (B_ClassName nb) d = None)"
    using assms date by (auto simp: bookingHandler_def Let_def split: option.splits write_result.splits)
  have "fst (bookingHandler ''POST'' (Some nb) w sys) \<noteq> Inl ClassUnavailable"
    if "c \<in> set (classes sys)" and "ClassName c = B_ClassName nb"
      and "\<not> Before (parseIgnoringError (EndDate c)) (parseIgnoringError (StartDate c))"
      and "d = parseIgnoringError (StartDate c) \<or> d = parseIgnoringError (EndDate c)" for c
    using that unfolding fst_iff classFound_None
    by (auto simp: After_def Before_irrefl)
  then show ?thesis unfolding iff classFound_None by blast
qed

text \<open>
  C4 at scenario 4: 25 December 2024 is after the Pilates class's end and is answered
  with \<open>ClassUnavailable\<close>; 1 and 20 December, its start and end, are not.
\<close>

theorem booking_outside_range_rejected_witness:
  "MemberName christmas \<noteq> [] \<and> B_ClassName christmas \<noteq> []
   \<and> parseDate (Date christmas) = Some (YMD 2024 12 25)
   \<and> classes with_pilates = [pilates\<lparr>ID := 1\<rparr>]
   \<and> After (YMD 2024 12 25) (parseIgnoringError (EndDate (pilates\<lparr>ID := 1\<rparr>)))
   \<and> bookingHandler ''POST'' (Some christmas) Written with_pilates
       = (Inl ClassUnavailable, with_pilates)
   \<and> parseDate (Date first_day) = Some (parseIgnoringError (StartDate (pilates\<lparr>ID := 1\<rparr>)))
   \<and> fst (bookingHandler ''POST'' (Some first_day) Written with_pilates) \<noteq> Inl ClassUnavailable
   \<and> parseDate (Date last_day) = Some (parseIgnoringError (EndDate (pilates\<lparr>ID := 1\<rparr>)))
   \<and> fst (bookingHandler ''POST'' (Some last_day) Written with_pilates) \<noteq> Inl ClassUnavailable"
proof -
  have x: "MemberName christmas \<noteq> []" "B_ClassName christmas \<noteq> []"
    "parseDate (Date christmas) = Some (YMD 2024 12 25)"
    by (simp_all add: christmas_def date_simps)
  have out: "\<forall>c\<in>set (classes with_pilates). ClassName c = B_ClassName christmas \<longrightarrow>
         Before (YMD 2024 12 25) (parseIgnoringError (StartDate c))
         \<or> After (YMD 2024 12 25) (parseIgnoringError (EndDate c))"
    by (simp add: scenario_simps christmas_def date_simps)
  have only: "classes with_pilates = [pilates\<lparr>ID := 1\<rparr>]"
    "After (YMD 2024 12 25) (parseIgnoringError (EndDate (pilates\<lparr>ID := 1\<rparr>)))"
    by (simp_all add: scenario_simps date_simps)
  have rej: "bookingHandler ''POST'' (Some christmas) Written with_pilates
      = (Inl ClassUnavailable, with_pilates)"
    using booking_outside_range_rejected [OF x, of Written with_pilates, THEN conjunct1] out
    by blast
  have f: "MemberName first_day \<noteq> []" "B_ClassName first_day \<noteq> []"
    "parseDate (Date first_day) = Some (parseIgnoringError (StartDate (pilates\<lparr>ID := 1\<rparr>)))"
    by (simp_all add: first_day_def pilates_def date_simps)
  have l: "MemberName last_day \<noteq> []" "B_ClassName last_day \<noteq> []"
    "parseDate (Date last_day) = Some (parseIgnoringError (EndDate (pilates\<lparr>ID := 1\<rparr>)))"
    by (simp_all add: last_day_def pilates_def date_simps)
  have p: "pilates\<lparr>ID := 1\<rparr> \<in> set (classes with_pilates)"
    "ClassName (pilates\<lparr>ID := 1\<rparr>) = B_ClassName first_day"
    "ClassName (pilates\<lparr>ID := 1\<rparr>) = B_ClassName last_day"
    "\<not> Before (parseIgnoringError (EndDate (pilates\<lparr>ID := 1\<rparr>)))
              (parseIgnoringError (StartDate (pilates\<lparr>ID := 1\<rparr>)))"
    by (simp_all add: scenario_simps first_day_def last_day_def date_simps)
  have fin: "fst (bookingHandler ''POST'' (Some first_day) Written with_pilates)
      \<noteq> Inl ClassUnavailable"
    using booking_outside_range_rejected [OF f, of Written with_pilates, THEN conjunct2] p
    by blast
  have lin: "fst (bookingHandler ''POST'' (Some last_day) Written with_pilates)
      \<noteq> Inl ClassUnavailable"
    using booking_outside_range_rejected [OF l, of Written with_pilates, THEN conjunct2] p
    by blast
  show ?thesis
    using x only rej f(3) fin l(3) lin by (intro conjI)
qed

subsection \<open>C5: the first match wins\<close>

text \<open>
  C5. The lookup loop of \<open>bookingHandler\<close> computes the specification's \<open>FindActiveOn\<close>:
  the first stored class, in insertion order, whose name is the requested one and whose
  range holds the date with both ends included. When no class before \<open>c\<close> in the slice
  matches and \<open>c\<close> does, \<open>c\<close> is selected, whatever follows it. The capacity of the
  class selected is the one that decides: a booking request that reaches the count is
  answered with \<open>CapacityExceeded\<close> exactly when that capacity minus the count is at
  most 0.
\<close>

theorem classFound_is_first_match:
  "classFound cs name date = FindActiveOn cs name date
   \<and> ((\<forall>x\<in>set pre. \<not> (ClassName x = name \<and> containsDate x date))
        \<and> ClassName c = name \<and> containsDate c date
      \<longrightarrow> classFound (pre @ c # rest) name date = Some c)
   \<and> (MemberName nb \<noteq> [] \<and> B_ClassName nb \<noteq> [] \<and> parseDate (Date nb) = Some d
        \<and> FindActiveOn (classes sys) (B_ClassName nb) d = Some c'
      \<longrightarrow> (fst (bookingHandler ''POST'' (Some nb) w sys) = Inl CapacityExceeded)
           = (Capacity c' - currentBookings (bookings sys) (B_ClassName nb) (Date nb) \<le>s 0))"
proof (intro conjI impI)
  show "classFound cs name date = FindActiveOn cs name date"
    by (simp add: classFound_find FindActiveOn_def)
next
  assume a: "(\<forall>x\<in>set pre. \<not> (ClassName x = name \<and> containsDate x date))
        \<and> ClassName c = name \<and> containsDate c date"
  then have "List.find (\<lambda>c. ClassName c = name \<and> containsDate c date) (pre @ c # rest) = Some c"
    by (induction pre) auto
  then show "classFound (pre @ c # rest) name date = Some c"
    by (simp add: classFound_find)
next
  assume a: "MemberName nb \<noteq> [] \<and> B_ClassName nb \<noteq> [] \<and> parseDate (Date nb) = Some d
        \<and> FindActiveOn (classes sys) (B_ClassName nb) d = Some c'"
  then have date: "Date nb \<noteq> []" by auto
  from a have "classFound (classes sys) (B_ClassName nb) d = Some c'"
    by (simp add: classFound_find FindActiveOn_def)
  with a date show "(fst (bookingHandler ''POST'' (Some nb) w sys) = Inl CapacityExceeded)
           = (Capacity c' - currentBookings (bookings sys) (B_ClassName nb) (Date nb) \<le>s 0)"
    by (simp add: bookingHandler_def Let_def split: write_result.splits)
qed

text \<open>
  C5 at a catalog of a Pilates class and two Yoga classes whose ranges both hold
  16 December 2024: the Yoga class inserted first is selected. And in the run
  \<open>two_yogas\<close>, with one booking stored, the second booking is measured against the
  capacity 2 of the first Yoga class, not against the capacity 1 of the second.
\<close>

theorem classFound_is_first_match_witness:
  "ClassName (pilates\<lparr>ID := 1\<rparr>) \<noteq> ''Yoga''
   \<and> ClassName (yoga_big\<lparr>ID := 2\<rparr>) = ''Yoga''
   \<and> containsDate (yoga_big\<lparr>ID := 2\<rparr>) (YMD 2024 12 16)
   \<and> ClassName (yoga_small\<lparr>ID := 3\<rparr>) = ''Yoga''
   \<and> containsDate (yoga_small\<lparr>ID := 3\<rparr>) (YMD 2024 12 16)
   \<and> classFound ([pilates\<lparr>ID := 1\<rparr>] @ yoga_big\<lparr>ID := 2\<rparr> # [yoga_small\<lparr>ID := 3\<rparr>])
        ''Yoga'' (YMD 2024 12 16) = Some (yoga_big\<lparr>ID := 2\<rparr>)
   \<and> classFound [pilates\<lparr>ID := 1\<rparr>] ''Yoga'' (YMD 2024 12 16)
       = FindActiveOn [pilates\<lparr>ID := 1\<rparr>] ''Yoga'' (YMD 2024 12 16)
   \<and> FindActiveOn (classes (run (take 3 two_yogas) fresh)) (B_ClassName ben) (YMD 2024 12 16)
       = Some (yoga_big\<lparr>ID := 1\<rparr>)
   \<and> currentBookings (bookings (run (take 3 two_yogas) fresh)) (B_ClassName ben) (Date ben) = 1
   \<and> Capacity (yoga_big\<lparr>ID := 1\<rparr>) = 2 \<and> Capacity (yoga_small\<lparr>ID := 2\<rparr>) = 1
   \<and> fst (bookingHandler ''POST'' (Some ben) Written (run (take 3 two_yogas) fresh))
       \<noteq> Inl CapacityExceeded"
proof -
  have pre: "\<forall>x\<in>set [pilates\<lparr>ID := 1\<rparr>].
      \<not> (ClassName x = ''Yoga'' \<and> containsDate x (YMD 2024 12 16))"
    by (simp add: pilates_def)
  have other: "ClassName (pilates\<lparr>ID := 1\<rparr>) \<noteq> ''Yoga''"
    by (simp add: pilates_def)
  have big: "ClassName (yoga_big\<lparr>ID := 2\<rparr>) = ''Yoga''"
    "containsDate (yoga_big\<lparr>ID := 2\<rparr>) (YMD 2024 12 16)"
    by (simp_all add: yoga_big_def containsDate_def date_simps)
  have small: "ClassName (yoga_small\<lparr>ID := 3\<rparr>) = ''Yoga''"
    "containsDate (yoga_small\<lparr>ID := 3\<rparr>) (YMD 2024 12 16)"
    by (simp_all add: yoga_small_def containsDate_def date_simps)
  have sel: "classFound ([pilates\<lparr>ID := 1\<rparr>] @ yoga_big\<lparr>ID := 2\<rparr> # [yoga_small\<lparr>ID := 3\<rparr>])
        ''Yoga'' (YMD 2024 12 16) = Some (yoga_big\<lparr>ID := 2\<rparr>)"
    using classFound_is_first_match
      [of _ "''Yoga''" "YMD 2024 12 16" "[pilates\<lparr>ID := 1\<rparr>]" "yoga_big\<lparr>ID := 2\<rparr>"
          "[yoga_small\<lparr>ID := 3\<rparr>]", THEN conjunct2, THEN conjunct1] pre big
    by blast
  have eq: "classFound [pilates\<lparr>ID := 1\<rparr>] ''Yoga'' (YMD 2024 12 16)
       = FindActiveOn [pilates\<lparr>ID := 1\<rparr>] ''Yoga'' (YMD 2024 12 16)"
    using classFound_is_first_match by (rule conjunct1)
  have b: "MemberName ben \<noteq> []" "B_ClassName ben \<noteq> []"
    "parseDate (Date ben) = Some (YMD 2024 12 16)"
    by (simp_all add: ben_def date_simps)
  have f: "FindActiveOn (classes (run (take 3 two_yogas) fresh)) (B_ClassName ben) (YMD 2024 12 16)
       = Some (yoga_big\<lparr>ID := 1\<rparr>)"
    by (simp add: run_two_yogas_one_booked FindActiveOn_def containsDate_def yoga_simps date_simps)
  have n: "currentBookings (bookings (run (take 3 two_yogas) fresh)) (B_ClassName ben) (Date ben) = 1"
    by (simp add: run_two_yogas_one_booked currentBookings_def yoga_simps)
  have caps: "Capacity (yoga_big\<lparr>ID := 1\<rparr>) = 2" "Capacity (yoga_small\<lparr>ID := 2\<rparr>) = 1"
    by (simp_all add: yoga_simps)
  have room: "\<not> Capacity (yoga_big\<lparr>ID := 1\<rparr>)
        - currentBookings (bookings (run (take 3 two_yogas) fresh)) (B_ClassName ben) (Date ben) \<le>s 0"
    unfolding n caps by (simp add: word_sle_eq)
  have adm: "fst (bookingHandler ''POST'' (Some ben) Written (run (take 3 two_yogas) fresh))
       \<noteq> Inl CapacityExceeded"
    using classFound_is_first_match
      [of _ _ _ _ _ _ ben "YMD 2024 12 16" "run (take 3 two_yogas) fresh" "yoga_big\<lparr>ID := 1\<rparr>" Written,
       THEN conjunct2, THEN conjunct2] b f room
    by blast
  show ?thesis
    using other big small sel eq f n caps adm by (intro conjI)
qed

subsection \<open>C6: the range check of a new class\<close>

text \<open>
  C6. \<open>classHandler\<close> answers with \<open>InvalidRange\<close> exactly when the request has come
  through the checks before it (method POST, body decoded, fields present, capacity
  above 0, both dates parsed) and the parsed end is strictly before the parsed start.
  A class whose end is its start is accepted: it is stored under the next ID, and the
  reply is the success unless the write fails.
\<close>

theorem InvalidRange_iff_end_before_start:
  "((fst (classHandler meth reqBody w sys) = Inl InvalidRange) =
      (meth = ''POST'' \<and>
       (\<exists>nc sd ed. reqBody = Some nc
          \<and> ClassName nc \<noteq> [] \<and> StartDate nc \<noteq> [] \<and> EndDate nc \<noteq> [] \<and> \<not> Capacity nc \<le>s 0
          \<and> parseDate (StartDate nc) = Some sd \<and> parseDate (EndDate nc) = Some ed
          \<and> Before ed sd)))
   \<and> (ClassName nc \<noteq> [] \<and> \<not> Capacity nc \<le>s 0
        \<and> parseDate (StartDate nc) = Some t \<and> parseDate (EndDate nc) = Some t
      \<longrightarrow> fst (classHandler ''POST'' (Some nc) w' sys)
            = (if w' = Written then Inr (ClassCreated (nc\<lparr>ID := classId sys\<rparr>))
               else Inl PersistenceFailure)
          \<and> classes (snd (classHandler ''POST'' (Some nc) w' sys))
            = classes sys @ [nc\<lparr>ID := classId sys\<rparr>])"
proof (intro conjI impI)
  show "(fst (classHandler meth reqBody w sys) = Inl InvalidRange) =
      (meth = ''POST'' \<and>
       (\<exists>nc sd ed. reqBody = Some nc
          \<and> ClassName nc \<noteq> [] \<and> StartDate nc \<noteq> [] \<and> EndDate nc \<noteq> [] \<and> \<not> Capacity nc \<le>s 0
          \<and> parseDate (StartDate nc) = Some sd \<and> parseDate (EndDate nc) = Some ed
          \<and> Before ed sd))"
    by (auto simp: classHandler_def Let_def split: option.splits write_result.splits)
next
  assume a: "ClassName nc \<noteq> [] \<and> \<not> Capacity nc \<le>s 0
        \<and> parseDate (StartDate nc) = Some t \<and> parseDate (EndDate nc) = Some t"
  then have ne: "StartDate nc \<noteq> []" "EndDate nc \<noteq> []" by auto
  from a ne show "fst (classHandler ''POST'' (Some nc) w' sys)
            = (if w' = Written then Inr (ClassCreated (nc\<lparr>ID := classId sys\<rparr>))
               else Inl PersistenceFailure)"
    by (simp add: classHandler_def Let_def Before_irrefl split: write_result.splits)
  from a ne show "classes (snd (classHandler ''POST'' (Some nc) w' sys))
            = classes sys @ [nc\<lparr>ID := classId sys\<rparr>]"
    by (simp add: classHandler_def Let_def Before_irrefl split: write_result.splits)
qed

text \<open>
  C6 at scenario 5, a class from 31 December to 1 December 2024, and at a class that
  starts and ends on 16 December 2024.
\<close>

theorem InvalidRange_iff_end_before_start_witness:
  "parseDate (StartDate backwards) = Some (YMD 2024 12 31)
   \<and> parseDate (EndDate backwards) = Some (YMD 2024 12 1)
   \<and> Before (YMD 2024 12 1) (YMD 2024 12 31)
   \<and> fst (classHandler ''POST'' (Some backwards) Written fresh) = Inl InvalidRange
   \<and> ClassName one_day \<noteq> [] \<and> \<not> Capacity one_day \<le>s 0
   \<and> parseDate (StartDate one_day) = Some (YMD 2024 12 16)
   \<and> parseDate (EndDate one_day) = Some (YMD 2024 12 16)
   \<and> fst (classHandler ''POST'' (Some one_day) Written fresh)
       = Inr (ClassCreated (one_day\<lparr>ID := classId fresh\<rparr>))
   \<and> classes (snd (classHandler ''POST'' (Some one_day) Written fresh))
       = classes fresh @ [one_day\<lparr>ID := classId fresh\<rparr>]"
proof -
  have b: "parseDate (StartDate backwards) = Some (YMD 2024 12 31)"
    "parseDate (EndDate backwards) = Some (YMD 2024 12 1)"
    "Before (YMD 2024 12 1) (YMD 2024 12 31)"
    by (simp_all add: backwards_def date_simps)
  have bf: "ClassName backwards \<noteq> []" "StartDate backwards \<noteq> []" "EndDate backwards \<noteq> []"
    "\<not> Capacity backwards \<le>s 0"
    by (simp_all add: backwards_def word_sle_eq)
  have rej: "fst (classHandler ''POST'' (Some backwards) Written fresh) = Inl InvalidRange"
    using InvalidRange_iff_end_before_start
      [of "''POST''" "Some backwards" Written fresh, THEN conjunct1] b bf
    by blast
  have o: "ClassName one_day \<noteq> []" "\<not> Capacity one_day \<le>s 0"
    "parseDate (StartDate one_day) = Some (YMD 2024 12 16)"
    "parseDate (EndDate one_day) = Some (YMD 2024 12 16)"
    by (simp_all add: one_day_def date_simps word_sle_eq)
  have acc: "fst (classHandler ''POST'' (Some one_day) Written fresh)
       = Inr (ClassCreated (one_day\<lparr>ID := classId fresh\<rparr>))
     \<and> classes (snd (classHandler ''POST'' (Some one_day) Written fresh))
       = classes fresh @ [one_day\<lparr>ID := classId fresh\<rparr>]"
    using InvalidRange_iff_end_before_start
      [of _ _ _ fresh one_day "YMD 2024 12 16" Written, THEN conjunct2] o
    by simp
  show ?thesis
    using b rej o acc by (intro conjI) blast+
qed

subsection \<open>C7: a rejection changes nothing\<close>

text \<open>
  C7. When either handler answers with an error other than the write failure (that is,
  with \<open>InvalidFields\<close>, \<open>InvalidDateFormat\<close>, \<open>InvalidRange\<close>, \<open>ClassUnavailable\<close> or
  \<open>CapacityExceeded\<close>, or with the method or body error), the state after the call is the
  state before it: both slices, both counters and both files.
\<close>

theorem rejection_leaves_state:
  "(classHandler meth reqBody w sys = (Inl e, sys') \<and> e \<noteq> PersistenceFailure \<longrightarrow> sys' = sys)
   \<and> (bookingHandler meth' reqBody' w' sys = (Inl e', sys'') \<and> e' \<noteq> PersistenceFailure
        \<longrightarrow> sys'' = sys)"
  using classHandler_reject_unchanged bookingHandler_reject_unchanged by blast

text \<open>
  C7 at scenario 5 and scenario 4, each run on the state that holds the README's class
  and booking.
\<close>

theorem rejection_leaves_state_witness:
  "fst (classHandler ''POST'' (Some backwards) Written with_rahul) = Inl InvalidRange
   \<and> InvalidRange \<noteq> PersistenceFailure
   \<and> snd (classHandler ''POST'' (Some backwards) Written with_rahul) = with_rahul
   \<and> fst (bookingHandler ''POST'' (Some christmas) Written with_rahul) = Inl ClassUnavailable
   \<and> ClassUnavailable \<noteq> PersistenceFailure
   \<and> snd (bookingHandler ''POST'' (Some christmas) Written with_rahul) = with_rahul"
proof -
  have h1: "fst (classHandler ''POST'' (Some backwards) Written with_rahul) = Inl InvalidRange"
    by (simp add: classHandler_def backwards_def date_simps word_sle_eq)
  have h2: "fst (bookingHandler ''POST'' (Some christmas) Written with_rahul) = Inl ClassUnavailable"
    by (simp add: bookingHandler_def christmas_def scenario_simps date_simps)
  have n: "InvalidRange \<noteq> PersistenceFailure" "ClassUnavailable \<noteq> PersistenceFailure"
    by simp_all
  have p1: "classHandler ''POST'' (Some backwards) Written with_rahul =
      (Inl InvalidRange, snd (classHandler ''POST'' (Some backwards) Written with_rahul))"
    using h1 by (simp add: prod_eq_iff)
  have p2: "bookingHandler ''POST'' (Some christmas) Written with_rahul =
      (Inl ClassUnavailable, snd (bookingHandler ''POST'' (Some christmas) Written with_rahul))"
    using h2 by (simp add: prod_eq_iff)
  have c1: "snd (classHandler ''POST'' (Some backwards) Written with_rahul) = with_rahul"
    using rejection_leaves_state [THEN conjunct1, rule_format, OF conjI, OF p1 n(1)] .
  have c2: "snd (bookingHandler ''POST'' (Some christmas) Written with_rahul) = with_rahul"
    using rejection_leaves_state [THEN conjunct2, rule_format, OF conjI, OF p2 n(2)] .
  show ?thesis
    using h1 n(1) c1 h2 n(2) c2 by (intro conjI)
qed

subsection \<open>C8: a failed write is not rolled back\<close>



subsection \<open>C9: the date layout\<close>

text \<open>
  C9 as it is worded, that date parsing accepts exactly the layout of two-digit day,
  two-digit month and four-digit year, does not hold: the parser also checks the month
  and the day of the month. The text 31-02-2024 has the layout and is not accepted; a
  booking for that date is answered with \<open>InvalidDateFormat\<close>.
\<close>

theorem layout_without_day_counterexample:
  "fixedLayout (Date feb31)
   \<and> parseDate (Date feb31) = None
   \<and> bookingHandler ''POST'' (Some feb31) Written with_pilates =
       (Inl (InvalidDateFormat DateField), with_pilates)"
  by (simp add: bookingHandler_def feb31_def date_simps)

text \<open>
  C9, amended. The parser accepts a text exactly when it has the layout of two digits,
  hyphen, two digits, hyphen, four digits and names a day that exists. \<open>classHandler\<close>
  answers with \<open>InvalidDateFormat\<close> for the start date, the state left as it was, exactly
  when the request has come through the checks before the parse and the start date is
  not such a text; for the end date, exactly when moreover the start date is such a text
  and the end date is not. \<open>bookingHandler\<close> answers with \<open>InvalidDateFormat\<close>, the state
  left as it was, exactly when the request has come through the checks before the parse
  and its date is not such a text. So every text in another layout, and every text in
  the layout that names no day, is rejected with this error by both handlers.
\<close>

theorem unparsed_dates_rejected:
  "((parseDate str \<noteq> None) = (fixedLayout str \<and> calendarDay str))
   \<and> ((classHandler meth reqBody w sys = (Inl (InvalidDateFormat f), sys')) =
        (sys' = sys \<and> meth = ''POST'' \<and>
         (\<exists>nc. reqBody = Some nc
            \<and> ClassName nc \<noteq> [] \<and> StartDate nc \<noteq> [] \<and> EndDate nc \<noteq> []
            \<and> \<not> Capacity nc \<le>s 0
            \<and> (f = StartDateField
                  \<and> \<not> (fixedLayout (StartDate nc) \<and> calendarDay (StartDate nc))
                \<or> f = EndDateField
                  \<and> (fixedLayout (StartDate nc) \<and> calendarDay (StartDate nc))
                  \<and> \<not> (fixedLayout (EndDate nc) \<and> calendarDay (EndDate nc))))))
   \<and> ((bookingHandler meth' reqBody' w' sys = (Inl (InvalidDateFormat f'), sys'')) =
        (sys'' = sys \<and> meth' = ''POST'' \<and> f' = DateField \<and>
         (\<exists>nb. reqBody' = Some nb
            \<and> MemberName nb \<noteq> [] \<and> Date nb \<noteq> [] \<and> B_ClassName nb \<noteq> []
            \<and> \<not> (fixedLayout (Date nb) \<and> calendarDay (Date nb)))))"
proof (intro conjI)
  show "(parseDate str \<noteq> None) = (fixedLayout str \<and> calendarDay str)"
    by (rule parseDate_accepts)
next
  show "(classHandler meth reqBody w sys = (Inl (InvalidDateFormat f), sys')) =
        (sys' = sys \<and> meth = ''POST'' \<and>
         (\<exists>nc. reqBody = Some nc
            \<and> ClassName nc \<noteq> [] \<and> StartDate nc \<noteq> [] \<and> EndDate nc \<noteq> []
            \<and> \<not> Capacity nc \<le>s 0
            \<and> (f = StartDateField
                  \<and> \<not> (fixedLayout (StartDate nc) \<and> calendarDay (StartDate nc))
                \<or> f = EndDateField
                  \<and> (fixedLayout (StartDate nc) \<and> calendarDay (StartDate nc))
                  \<and> \<not> (fixedLayout (EndDate nc) \<and> calendarDay (EndDate nc)))))"
    unfolding parseDate_accepts [symmetric]
    by (auto simp: classHandler_def Let_def split: option.splits write_result.splits)
next
  show "(bookingHandler meth' reqBody' w' sys = (Inl (InvalidDateFormat f'), sys'')) =
        (sys'' = sys \<and> meth' = ''POST'' \<and> f' = DateField \<and>
         (\<exists>nb. reqBody' = Some nb
            \<and> MemberName nb \<noteq> [] \<and> Date nb \<noteq> [] \<and> B_ClassName nb \<noteq> []
            \<and> \<not> (fixedLayout (Date nb) \<and> calendarDay (Date nb))))"
    unfolding parseDate_accepts [symmetric]
    by (auto simp: bookingHandler_def Let_def split: option.splits write_result.splits)
qed

text \<open>
  The amended C9 at scenario 6, the booking date 12/16/2024; at a class whose start date
  is written year first; at a class whose start date is 31 April; at a class whose end
  date has a two-digit year; and at 16-12-2024, which is accepted.
\<close>

theorem unparsed_dates_rejected_witness:
  "\<not> fixedLayout (Date slashes)
   \<and> bookingHandler ''POST'' (Some slashes) Written with_pilates =
       (Inl (InvalidDateFormat DateField), with_pilates)
   \<and> \<not> fixedLayout (StartDate iso_start)
   \<and> classHandler ''POST'' (Some iso_start) Written with_pilates =
       (Inl (InvalidDateFormat StartDateField), with_pilates)
   \<and> fixedLayout (StartDate april31) \<and> \<not> calendarDay (StartDate april31)
   \<and> classHandler ''POST'' (Some april31) Written with_pilates =
       (Inl (InvalidDateFormat StartDateField), with_pilates)
   \<and> fixedLayout (StartDate short_end) \<and> calendarDay (StartDate short_end)
   \<and> \<not> fixedLayout (EndDate short_end)
   \<and> classHandler ''POST'' (Some short_end) Written with_pilates =
       (Inl (InvalidDateFormat EndDateField), with_pilates)
   \<and> fixedLayout ''16-12-2024'' \<and> calendarDay ''16-12-2024''
   \<and> parseDate ''16-12-2024'' \<noteq> None"
proof -
  have b: "MemberName slashes \<noteq> []" "Date slashes \<noteq> []" "B_ClassName slashes \<noteq> []"
    "\<not> fixedLayout (Date slashes)"
    by (simp_all add: slashes_def isDigit_def)
  have s: "ClassName iso_start \<noteq> []" "StartDate iso_start \<noteq> []" "EndDate iso_start \<noteq> []"
    "\<not> Capacity iso_start \<le>s 0" "\<not> fixedLayout (StartDate iso_start)"
    by (simp_all add: iso_start_def isDigit_def word_sle_eq)
  have a: "ClassName april31 \<noteq> []" "StartDate april31 \<noteq> []" "EndDate april31 \<noteq> []"
    "\<not> Capacity april31 \<le>s 0" "fixedLayout (StartDate april31)"
    "\<not> calendarDay (StartDate april31)"
    by (simp_all add: april31_def date_simps word_sle_eq)
  have e: "ClassName short_end \<noteq> []" "StartDate short_end \<noteq> []" "EndDate short_end \<noteq> []"
    "\<not> Capacity short_end \<le>s 0" "fixedLayout (StartDate short_end)"
    "calendarDay (StartDate short_end)" "\<not> fixedLayout (EndDate short_end)"
    by (simp_all add: short_end_def date_simps word_sle_eq)
  have g: "fixedLayout ''16-12-2024''" "calendarDay ''16-12-2024''"
    by (simp_all add: date_simps)
  have c0: "parseDate ''16-12-2024'' \<noteq> None"
    using unparsed_dates_rejected [of "''16-12-2024''", THEN conjunct1] g by blast
  have c1: "classHandler ''POST'' (Some iso_start) Written with_pilates =
       (Inl (InvalidDateFormat StartDateField), with_pilates)"
    using unparsed_dates_rejected
      [of _ "''POST''" "Some iso_start" Written with_pilates StartDateField with_pilates,
       THEN conjunct2, THEN conjunct1] s
    by blast
  have c2: "classHandler ''POST'' (Some april31) Written with_pilates =
       (Inl (InvalidDateFormat StartDateField), with_pilates)"
    using unparsed_dates_rejected
      [of _ "''POST''" "Some april31" Written with_pilates StartDateField with_pilates,
       THEN conjunct2, THEN conjunct1] a
    by blast
  have c3: "classHandler ''POST'' (Some short_end) Written with_pilates =
       (Inl (InvalidDateFormat EndDateField), with_pilates)"
    using unparsed_dates_rejected
      [of _ "''POST''" "Some short_end" Written with_pilates EndDateField with_pilates,
       THEN conjunct2, THEN conjunct1] e
    by blast
  have c4: "bookingHandler ''POST'' (Some slashes) Written with_pilates =
       (Inl (InvalidDateFormat DateField), with_pilates)"
    using unparsed_dates_rejected
      [of _ _ _ _ with_pilates _ _ "''POST''" "Some slashes" Written DateField with_pilates,
       THEN conjunct2, THEN conjunct2] b
    by blast
  show ?thesis
    using b(4) c4 s(5) c1 a(5,6) c2 e(5,6,7) c3 g c0 by (intro conjI)
qed

subsection \<open>C10: the same member may book again\<close>

text \<open>
  C10. The handler compares no member names. When a booking was answered with success
  and the reply shows slots left, the same request sent again is admitted: its record is
  appended after the first with the next ID, which differs from the first, the count for
  the class and date has grown by one, and the reply, when the write succeeds, is the
  success with one slot fewer.
\<close>

theorem repeated_booking_admitted:
  assumes "bookingHandler meth (Some nb) w sys = (Inr (BookingSuccessful b1 k1), sys1)"
    and "0 <s k1"
  shows "bookingHandler meth (Some nb) Written sys1 =
           (Inr (BookingSuccessful (nb\<lparr>B_ID := bookingId sys + 1\<rparr>) (k1 - 1)),
            sys1\<lparr>bookingId := bookingId sys + 2,
                 bookings := bookings sys
                   @ [nb\<lparr>B_ID := bookingId sys\<rparr>, nb\<lparr>B_ID := bookingId sys + 1\<rparr>],
                 bookings_json := bookings sys
                   @ [nb\<lparr>B_ID := bookingId sys\<rparr>, nb\<lparr>B_ID := bookingId sys + 1\<rparr>]\<rparr>)
     \<and> bookings (snd (bookingHandler meth (Some nb) w2 sys1))
         = bookings sys @ [nb\<lparr>B_ID := bookingId sys\<rparr>, nb\<lparr>B_ID := bookingId sys + 1\<rparr>]
     \<and> b1 = nb\<lparr>B_ID := bookingId sys\<rparr>
     \<and> bookings sys1 = bookings sys @ [b1]
     \<and> nb\<lparr>B_ID := bookingId sys + 1\<rparr> \<noteq> b1
     \<and> bookingId sys + 1 \<noteq> bookingId sys
     \<and> currentBookings (bookings sys1) (B_ClassName nb) (Date nb)
         = currentBookings (bookings sys) (B_ClassName nb) (Date nb) + 1"
proof -
  let ?cnt = "currentBookings (bookings sys) (B_ClassName nb) (Date nb)"
  from bookingHandler_success [OF assms(1)] obtain d c where
    m: "meth = ''POST''"
    and f: "MemberName nb \<noteq> []" "Date nb \<noteq> []" "B_ClassName nb \<noteq> []"
    and d: "parseDate (Date nb) = Some d"
    and c: "classFound (classes sys) (B_ClassName nb) d = Some c"
    and b1: "b1 = nb\<lparr>B_ID := bookingId sys\<rparr>"
    and k1: "k1 = Capacity c - ?cnt - 1"
    and sys1: "sys1 = sys\<lparr>bookingId := bookingId sys + 1,
                    bookings := bookings sys @ [nb\<lparr>B_ID := bookingId sys\<rparr>],
                    bookings_json := bookings sys @ [nb\<lparr>B_ID := bookingId sys\<rparr>]\<rparr>"
    by auto
  have cnt1: "currentBookings (bookings sys1) (B_ClassName nb) (Date nb) = ?cnt + 1"
    by (simp add: sys1 currentBookings_append)
  have avail: "Capacity c - currentBookings (bookings sys1) (B_ClassName nb) (Date nb) = k1"
    by (simp add: cnt1 k1)
  have open_slot: "\<not> k1 \<le>s 0"
    using assms(2) by (simp add: word_sle_eq word_sless_alt)
  have c1: "classFound (classes sys1) (B_ClassName nb) d = Some c"
    using c by (simp add: sys1)
  have adm: "\<not> Capacity c - currentBookings (bookings sys1) (B_ClassName nb) (Date nb) \<le>s 0"
    using open_slot by (simp add: avail)
  have ids: "bookingId sys + 1 \<noteq> bookingId sys"
    by simp
  have again: "bookingHandler meth (Some nb) Written sys1 =
           (Inr (BookingSuccessful (nb\<lparr>B_ID := bookingId sys + 1\<rparr>) (k1 - 1)),
            sys1\<lparr>bookingId := bookingId sys + 2,
                 bookings := bookings sys
                   @ [nb\<lparr>B_ID := bookingId sys\<rparr>, nb\<lparr>B_ID := bookingId sys + 1\<rparr>],
                 bookings_json := bookings sys
                   @ [nb\<lparr>B_ID := bookingId sys\<rparr>, nb\<lparr>B_ID := bookingId sys + 1\<rparr>]\<rparr>)"
    using bookingHandler_admit [OF f d c1 adm, of Written] by (simp add: m sys1 avail [symmetric])
  have stored: "bookings (snd (bookingHandler meth (Some nb) w2 sys1))
         = bookings sys @ [nb\<lparr>B_ID := bookingId sys\<rparr>, nb\<lparr>B_ID := bookingId sys + 1\<rparr>]"
    using bookingHandler_admit [OF f d c1 adm, of w2]
    by (simp add: m sys1 split: write_result.splits)
  have differ: "nb\<lparr>B_ID := bookingId sys + 1\<rparr> \<noteq> b1"
  proof
    assume "nb\<lparr>B_ID := bookingId sys + 1\<rparr> = b1"
    then have "B_ID (nb\<lparr>B_ID := bookingId sys + 1\<rparr>) = B_ID b1" by simp
    with ids show False by (simp add: b1)
  qed
  have first: "bookings sys1 = bookings sys @ [b1]" by (simp add: sys1 b1)
  show ?thesis
    using again stored b1 first differ ids cnt1 by (intro conjI)
qed

text \<open>
  C10 at the README's booking sent twice: the second reply carries ID 2 and 8 slots.
\<close>

theorem repeated_booking_admitted_witness:
  "bookingHandler ''POST'' (Some rahul) Written with_pilates =
     (Inr (BookingSuccessful (rahul\<lparr>B_ID := 1\<rparr>) 9), with_rahul)
   \<and> (0 :: goint) <s 9
   \<and> bookingHandler ''POST'' (Some rahul) Written with_rahul =
       (Inr (BookingSuccessful (rahul\<lparr>B_ID := bookingId with_pilates + 1\<rparr>) (9 - 1)),
        with_rahul\<lparr>bookingId := bookingId with_pilates + 2,
          bookings := bookings with_pilates
            @ [rahul\<lparr>B_ID := bookingId with_pilates\<rparr>, rahul\<lparr>B_ID := bookingId with_pilates + 1\<rparr>],
          bookings_json := bookings with_pilates
            @ [rahul\<lparr>B_ID := bookingId with_pilates\<rparr>, rahul\<lparr>B_ID := bookingId with_pilates + 1\<rparr>]\<rparr>)
   \<and> bookingId with_pilates = 1"
proof -
  have h1: "bookingHandler ''POST'' (Some rahul) Written with_pilates =
     (Inr (BookingSuccessful (rahul\<lparr>B_ID := 1\<rparr>) 9), with_rahul)"
    by (rule scenario_2)
  have h2: "(0 :: goint) <s 9"
    by (simp add: word_sless_alt)
  have i: "bookingId with_pilates = 1"
    by (simp add: scenario_simps)
  show ?thesis
    using h1 h2 repeated_booking_admitted [OF h1 h2, THEN conjunct1] i by (intro conjI)
qed

end
